theory Spec2Isabelle
  imports Complex_Main "HOL-Library.AList"
begin

section \<open>Python values and errors\<close>

text \<open>
  The values that reach the sample classes and the sample parsers. Dictionaries are
  keyed by strings (field names, attribute names, JSON keys) and keep insertion order.
  An embedded document (a label, a metadata object) is its class name with the keyword
  arguments it was constructed from. A numpy array is represented by its shape, a
  stored sample by its attributes.
\<close>

datatype pyval =
    VNone
  | VBool bool
  | VInt int
  | VFloat real
  | VStr string
  | VList "pyval list"
  | VTuple "pyval list"
  | VDict "(string \<times> pyval) list"
  | VEmbedded string "(string \<times> pyval) list"
  | VArray "nat list"
  | VSample "(string \<times> pyval) list"
  | VObject string

text \<open>The messages of the \<open>ValueError\<close>s raised in \<open>sample.py\<close> and \<open>parsers.py\<close>.\<close>

datatype value_error =
    InvalidFieldName
  | CannotSetReserveWord
  | SampleDoesNotHaveField
  | FieldAlreadyExists
  | InvalidFieldType
  | NoCurrentSample
  | CannotExtractImagePath
  | DoesNotProvideImagePaths
  | DoesNotProvideImageMetadata
  | MustHaveImagePath
  | MustBeSubclass
  | CannotUnpack
  | SchemaNotSubset

datatype error =
    ValueError value_error
  | TypeError
  | ValidationError
  | AssertionError
  | AttributeError
  | IndexError
  | KeyError
  | ZeroDivisionError
  | NotImplementedError
  | ExternalError string

text \<open>\<open>name.startswith("_")\<close>\<close>

fun startswith_underscore :: "string \<Rightarrow> bool" where
  "startswith_underscore [] = False"
| "startswith_underscore (c # cs) = (c = CHR ''_'')"

text \<open>
  \<open>isinstance\<close> against the classes the code tests for. A Python \<open>bool\<close> is an
  instance of \<open>int\<close>; \<open>six.string_types\<close> is \<open>str\<close>.
\<close>

fun isinstance_EmbeddedDocument :: "pyval \<Rightarrow> bool" where
  "isinstance_EmbeddedDocument (VEmbedded c kw) = True"
| "isinstance_EmbeddedDocument v = False"

fun isinstance_bool :: "pyval \<Rightarrow> bool" where
  "isinstance_bool (VBool b) = True"
| "isinstance_bool v = False"

fun isinstance_integer_types :: "pyval \<Rightarrow> bool" where
  "isinstance_integer_types (VBool b) = True"
| "isinstance_integer_types (VInt i) = True"
| "isinstance_integer_types v = False"

fun isinstance_string_types :: "pyval \<Rightarrow> bool" where
  "isinstance_string_types (VStr s) = True"
| "isinstance_string_types v = False"

fun isinstance_list :: "pyval \<Rightarrow> bool" where
  "isinstance_list (VList xs) = True"
| "isinstance_list v = False"

fun isinstance_tuple :: "pyval \<Rightarrow> bool" where
  "isinstance_tuple (VTuple xs) = True"
| "isinstance_tuple v = False"

fun isinstance_dict :: "pyval \<Rightarrow> bool" where
  "isinstance_dict (VDict d) = True"
| "isinstance_dict v = False"

text \<open>\<open>type(value)\<close> of an embedded document: its class name.\<close>

fun type_of_embedded :: "pyval \<Rightarrow> string option" where
  "type_of_embedded (VEmbedded c kw) = Some c"
| "type_of_embedded v = None"

section \<open>The sample class (\<open>fiftyone/core/sample.py\<close>)\<close>

text \<open>
  The field classes that \<open>add_field\<close> is called with. \<open>OtherField\<close> is any other
  subclass of \<open>BaseField\<close>, \<open>NotAField\<close> a class that is not one.
\<close>

datatype field_cls =
    BooleanField
  | IntField
  | StringField
  | ListField
  | DictField
  | EmbeddedDocumentField
  | OtherField string
  | NotAField string

fun issubclass_BaseField :: "field_cls \<Rightarrow> bool" where
  "issubclass_BaseField (NotAField c) = False"
| "issubclass_BaseField t = True"

text \<open>A field instance: the class and the keyword arguments \<open>add_field\<close> builds it from.\<close>

record field =
  name :: string
  db_field :: string
  ftype :: field_cls
  document_type :: "string option"
  null :: bool
  subfield :: "field_cls option"

text \<open>
  What a name is bound to on the class: a field descriptor, a read-only property
  (\<open>filename\<close>, \<open>in_dataset\<close>, \<open>dataset_name\<close>) or any other attribute (a method).
\<close>

datatype cls_attr = FieldAttr field | PropertyAttr | MethodAttr

text \<open>
  The state a sample's methods read and write: the class part (\<open>cls._fields\<close>,
  \<open>cls._fields_ordered\<close>, the attributes of the class) shared by the samples of a
  dataset, and the instance part (the field values, the plain instance attributes,
  \<open>_in_db\<close>). \<open>saves\<close> counts the calls of \<open>save()\<close>, \<open>warnings\<close> those of
  \<open>warnings.warn\<close>.
\<close>

record odm =
  cls_fields :: "string \<rightharpoonup> field"
  cls_fields_ordered :: "string list"
  cls_attrs :: "string \<rightharpoonup> cls_attr"
  data :: "string \<rightharpoonup> pyval"
  inst_attrs :: "string \<rightharpoonup> pyval"
  in_db :: bool
  saves :: nat
  warnings :: nat

definition hasattr_cls :: "odm \<Rightarrow> string \<Rightarrow> bool" where
  "hasattr_cls st n = (cls_attrs st n \<noteq> None)"

definition hasattr_self :: "odm \<Rightarrow> string \<Rightarrow> bool" where
  "hasattr_self st n = (cls_attrs st n \<noteq> None \<or> inst_attrs st n \<noteq> None)"

text \<open>
  \<open>super().__setattr__(name, value)\<close>, the assignment of the base document class:
  a field descriptor stores the value among the field values, a read-only property
  refuses the assignment, any other name becomes a plain instance attribute.
\<close>

definition super_setattr :: "odm \<Rightarrow> string \<Rightarrow> pyval \<Rightarrow> error option \<times> odm" where
  "super_setattr st n v =
     (case cls_attrs st n of
        Some (FieldAttr f) \<Rightarrow> (None, st\<lparr>data := (data st)(n \<mapsto> v)\<rparr>)
      | Some PropertyAttr \<Rightarrow> (Some AttributeError, st)
      | _ \<Rightarrow> (None, st\<lparr>inst_attrs := (inst_attrs st)(n \<mapsto> v)\<rparr>))"

text \<open>
  \<open>ODMSample.__setattr__\<close>. The \<open>validate\<close> methods of the field classes belong to
  the document library, so the validator is a parameter: \<open>validate f v\<close> holds when
  \<open>f.validate(v)\<close> returns without raising. The result is the exception raised, if
  any, and the state at that moment.
\<close>

definition ODMSample_setattr ::
  "(field \<Rightarrow> pyval \<Rightarrow> bool) \<Rightarrow> odm \<Rightarrow> string \<Rightarrow> pyval \<Rightarrow> error option \<times> odm" where
  "ODMSample_setattr validate st n v =
     (if startswith_underscore n \<or> (hasattr_self st n \<and> n \<notin> dom (cls_fields st))
      then super_setattr st n v
      else if hasattr_cls st n then
        (case (if v \<noteq> VNone
               then (case cls_attrs st n of
                       Some (FieldAttr f) \<Rightarrow> (if validate f v then None else Some ValidationError)
                     | _ \<Rightarrow> Some AttributeError)
               else None) of
           Some e \<Rightarrow> (Some e, st)
         | None \<Rightarrow>
            (case super_setattr st n v of
               (Some e, st') \<Rightarrow> (Some e, st')
             | (None, st') \<Rightarrow>
                (if n \<notin> {''_cls'', ''id''}
                    \<and> (case cls_attrs st' n of Some (FieldAttr f) \<Rightarrow> True | _ \<Rightarrow> False)
                    \<and> in_db st'
                 then (None, st'\<lparr>saves := Suc (saves st')\<rparr>)
                 else (None, st'))))
      else super_setattr (st\<lparr>warnings := Suc (warnings st)\<rparr>) n v)"

text \<open>
  \<open>ODMSample.add_field\<close>. Constructing an \<open>EmbeddedDocumentField\<close> without a
  document type fails in the field's constructor.
\<close>

definition add_field ::
  "odm \<Rightarrow> string \<Rightarrow> field_cls \<Rightarrow> string option \<Rightarrow> field_cls option \<Rightarrow> error option \<times> odm" where
  "add_field st field_name field_type embedded_doc_type subfld =
     (if field_name \<in> dom (cls_fields st) then (Some (ValueError FieldAlreadyExists), st)
      else if \<not> issubclass_BaseField field_type then (Some (ValueError InvalidFieldType), st)
      else if field_type = EmbeddedDocumentField \<and> embedded_doc_type = None
      then (Some TypeError, st)
      else
        (let fld = \<lparr> name = field_name, db_field = field_name, ftype = field_type,
                     document_type =
                       (if field_type = EmbeddedDocumentField then embedded_doc_type else None),
                     null = (field_type = EmbeddedDocumentField),
                     subfield =
                       (if field_type = ListField \<or> field_type = DictField then subfld else None) \<rparr>
         in (None, st\<lparr> cls_fields := (cls_fields st)(field_name \<mapsto> fld),
                       cls_fields_ordered := cls_fields_ordered st @ [field_name],
                       cls_attrs := (cls_attrs st)(field_name \<mapsto> FieldAttr fld) \<rparr>)))"

text \<open>\<open>ODMSample._add_implied_field\<close>\<close>

definition add_implied_field :: "odm \<Rightarrow> string \<Rightarrow> pyval \<Rightarrow> error option \<times> odm" where
  "add_implied_field st field_name v =
     (if field_name \<in> dom (cls_fields st) then (Some AssertionError, st)
      else if isinstance_EmbeddedDocument v
      then add_field st field_name EmbeddedDocumentField (type_of_embedded v) None
      else if isinstance_bool v then add_field st field_name BooleanField None None
      else if isinstance_integer_types v then add_field st field_name IntField None None
      else if isinstance_string_types v then add_field st field_name StringField None None
      else if isinstance_list v \<or> isinstance_tuple v then add_field st field_name ListField None None
      else if isinstance_dict v then add_field st field_name DictField None None
      else (Some TypeError, st))"

text \<open>\<open>ODMSample.set_field\<close>\<close>

definition set_field ::
  "(field \<Rightarrow> pyval \<Rightarrow> bool) \<Rightarrow> odm \<Rightarrow> string \<Rightarrow> pyval \<Rightarrow> bool \<Rightarrow> error option \<times> odm" where
  "set_field validate st field_name v create =
     (if startswith_underscore field_name then (Some (ValueError InvalidFieldName), st)
      else if hasattr_self st field_name \<and> field_name \<notin> dom (cls_fields st)
      then (Some (ValueError CannotSetReserveWord), st)
      else if field_name \<notin> dom (cls_fields st) then
        (if create then
           (case add_implied_field st field_name v of
              (Some e, st') \<Rightarrow> (Some e, st')
            | (None, st') \<Rightarrow> ODMSample_setattr validate st' field_name v)
         else (Some (ValueError SampleDoesNotHaveField), st))
      else ODMSample_setattr validate st field_name v)"

text \<open>\<open>ODMSample.__setitem__\<close>\<close>

definition ODMSample_setitem ::
  "(field \<Rightarrow> pyval \<Rightarrow> bool) \<Rightarrow> odm \<Rightarrow> string \<Rightarrow> pyval \<Rightarrow> error option \<times> odm" where
  "ODMSample_setitem validate st key v = set_field validate st key v True"


text \<open>
  The class as \<open>sample.py\<close> declares it, with a fresh instance that is not in the
  database: the fields \<open>filepath\<close>, \<open>tags\<close> and \<open>metadata\<close> (and the \<open>id\<close> every
  document has), the read-only properties and the methods.
\<close>

definition id_field :: field where
  "id_field = \<lparr> name = ''id'', db_field = ''_id'', ftype = OtherField ''ObjectIdField'',
                document_type = None, null = False, subfield = None \<rparr>"

definition filepath_field :: field where
  "filepath_field = \<lparr> name = ''filepath'', db_field = ''filepath'', ftype = StringField,
                      document_type = None, null = False, subfield = None \<rparr>"

definition tags_field :: field where
  "tags_field = \<lparr> name = ''tags'', db_field = ''tags'', ftype = ListField,
                  document_type = None, null = False, subfield = Some StringField \<rparr>"

definition metadata_field :: field where
  "metadata_field = \<lparr> name = ''metadata'', db_field = ''metadata'',
                      ftype = EmbeddedDocumentField, document_type = Some ''Metadata'',
                      null = True, subfield = None \<rparr>"

definition ODMSample :: odm where
  "ODMSample =
     \<lparr> cls_fields = [''id'' \<mapsto> id_field, ''filepath'' \<mapsto> filepath_field,
                      ''tags'' \<mapsto> tags_field, ''metadata'' \<mapsto> metadata_field],
       cls_fields_ordered = [''id'', ''filepath'', ''tags'', ''metadata''],
       cls_attrs = [''id'' \<mapsto> FieldAttr id_field, ''filepath'' \<mapsto> FieldAttr filepath_field,
                    ''tags'' \<mapsto> FieldAttr tags_field, ''metadata'' \<mapsto> FieldAttr metadata_field,
                    ''in_dataset'' \<mapsto> PropertyAttr, ''dataset_name'' \<mapsto> PropertyAttr,
                    ''filename'' \<mapsto> PropertyAttr, ''get_fields'' \<mapsto> MethodAttr,
                    ''add_field'' \<mapsto> MethodAttr, ''set_field'' \<mapsto> MethodAttr,
                    ''save'' \<mapsto> MethodAttr],
       data = Map.empty,
       inst_attrs = Map.empty,
       in_db = False,
       saves = 0,
       warnings = 0 \<rparr>"

text \<open>
  A validator that accepts a value when it has the field's declared kind, by the type
  tests of \<open>_add_implied_field\<close>; an embedded document must be of the declared
  document type.
\<close>

fun validate_kind :: "field \<Rightarrow> pyval \<Rightarrow> bool" where
  "validate_kind f v =
     (case ftype f of
        BooleanField \<Rightarrow> isinstance_bool v
      | IntField \<Rightarrow> isinstance_integer_types v
      | StringField \<Rightarrow> isinstance_string_types v
      | ListField \<Rightarrow> isinstance_list v \<or> isinstance_tuple v
      | DictField \<Rightarrow> isinstance_dict v
      | EmbeddedDocumentField \<Rightarrow> type_of_embedded v \<noteq> None \<and> type_of_embedded v = document_type f
      | _ \<Rightarrow> True)"

subsection \<open>The kinds of the specification\<close>

datatype kind = KEmbedded | KBool | KInt | KString | KList | KDict

text \<open>
  The inference table as the specification words it: the tests in priority order, the
  first one that holds decides; a boolean is also an integer, so the order matters.
\<close>

definition kind_table :: "(kind \<times> (pyval \<Rightarrow> bool)) list" where
  "kind_table =
     [(KEmbedded, isinstance_EmbeddedDocument),
      (KBool, isinstance_bool),
      (KInt, isinstance_integer_types),
      (KString, isinstance_string_types),
      (KList, \<lambda>v. isinstance_list v \<or> isinstance_tuple v),
      (KDict, isinstance_dict)]"

definition spec_infer_kind :: "pyval \<Rightarrow> kind option" where
  "spec_infer_kind v = map_option fst (find (\<lambda>kt. snd kt v) kind_table)"

fun field_cls_of_kind :: "kind \<Rightarrow> field_cls" where
  "field_cls_of_kind KEmbedded = EmbeddedDocumentField"
| "field_cls_of_kind KBool = BooleanField"
| "field_cls_of_kind KInt = IntField"
| "field_cls_of_kind KString = StringField"
| "field_cls_of_kind KList = ListField"
| "field_cls_of_kind KDict = DictField"



section \<open>Values: indexing, attributes, numbers, text\<close>

text \<open>Indexing a Python sequence: a negative index counts from the end.\<close>

definition seq_index :: "'a list \<Rightarrow> int \<Rightarrow> error + 'a" where
  "seq_index xs i =
     (if 0 \<le> i \<and> i < int (length xs) then Inr (xs ! nat i)
      else if i < 0 \<and> - i \<le> int (length xs) then Inr (xs ! nat (int (length xs) + i))
      else Inl IndexError)"

text \<open>
  \<open>container[key]\<close>. Lists, tuples and strings take an integer (a \<open>bool\<close> is one);
  a dictionary, an embedded document and a stored sample take a name and raise
  \<open>KeyError\<close> when it is missing; \<open>None\<close>, numbers and other objects are not
  subscriptable. Indexing an array gives the sub-array along the first axis.
\<close>

fun index_of :: "pyval \<Rightarrow> int option" where
  "index_of (VInt i) = Some i"
| "index_of (VBool b) = Some (if b then 1 else 0)"
| "index_of v = None"

fun name_of :: "pyval \<Rightarrow> string option" where
  "name_of (VStr k) = Some k"
| "name_of v = None"

fun unhashable :: "pyval \<Rightarrow> bool" where
  "unhashable (VList xs) = True"
| "unhashable (VDict d) = True"
| "unhashable (VArray shape) = True"
| "unhashable v = False"

definition lookup_name :: "(string \<times> pyval) list \<Rightarrow> pyval \<Rightarrow> error + pyval" where
  "lookup_name kw k =
     (case name_of k of
        Some n \<Rightarrow> (case map_of kw n of Some v \<Rightarrow> Inr v | None \<Rightarrow> Inl KeyError)
      | None \<Rightarrow> Inl KeyError)"

fun getitem :: "pyval \<Rightarrow> pyval \<Rightarrow> error + pyval" where
  "getitem (VList xs) k =
     (case index_of k of Some i \<Rightarrow> seq_index xs i | None \<Rightarrow> Inl TypeError)"
| "getitem (VTuple xs) k =
     (case index_of k of Some i \<Rightarrow> seq_index xs i | None \<Rightarrow> Inl TypeError)"
| "getitem (VStr s) k =
     (case index_of k of
        Some i \<Rightarrow> map_sum id (\<lambda>c. VStr [c]) (seq_index s i)
      | None \<Rightarrow> Inl TypeError)"
| "getitem (VDict d) k = (if unhashable k then Inl TypeError else lookup_name d k)"
| "getitem (VEmbedded c kw) k = lookup_name kw k"
| "getitem (VSample kw) k = lookup_name kw k"
| "getitem (VArray shape) k =
     (case shape of
        [] \<Rightarrow> Inl IndexError
      | n # rest \<Rightarrow>
         (case index_of k of
            Some i \<Rightarrow> map_sum id (\<lambda>u. VArray rest) (seq_index (replicate n ()) i)
          | None \<Rightarrow> Inl IndexError))"
| "getitem c k = Inl TypeError"

text \<open>\<open>obj.name\<close> on a stored sample or an embedded document.\<close>

fun getattr :: "pyval \<Rightarrow> string \<Rightarrow> error + pyval" where
  "getattr (VSample kw) n = (case map_of kw n of Some v \<Rightarrow> Inr v | None \<Rightarrow> Inl AttributeError)"
| "getattr (VEmbedded c kw) n =
     (case map_of kw n of Some v \<Rightarrow> Inr v | None \<Rightarrow> Inl AttributeError)"
| "getattr v n = Inl AttributeError"

text \<open>\<open>d.get(key, default)\<close>, a method of dictionaries only.\<close>

fun dict_get :: "pyval \<Rightarrow> string \<Rightarrow> pyval \<Rightarrow> error + pyval" where
  "dict_get (VDict d) k dflt = (case map_of d k of Some v \<Rightarrow> Inr v | None \<Rightarrow> Inr dflt)"
| "dict_get v k dflt = Inl AttributeError"

text \<open>\<open>d.items()\<close>\<close>

fun dict_items :: "pyval \<Rightarrow> error + (string \<times> pyval) list" where
  "dict_items (VDict d) = Inr d"
| "dict_items v = Inl AttributeError"

text \<open>
  The values a sequence unpacking \<open>a, b, ... = v\<close> iterates over; a value that is not
  iterable raises \<open>TypeError\<close>.
\<close>

fun iter_values :: "pyval \<Rightarrow> error + pyval list" where
  "iter_values (VList xs) = Inr xs"
| "iter_values (VTuple xs) = Inr xs"
| "iter_values (VStr s) = Inr (map (\<lambda>c. VStr [c]) s)"
| "iter_values (VDict d) = Inr (map (\<lambda>kv. VStr (fst kv)) d)"
| "iter_values (VArray (n # shape)) = Inr (replicate n (VArray shape))"
| "iter_values v = Inl TypeError"

text \<open>\<open>tlx, tly, w, h = v\<close>: exactly four values, else \<open>ValueError\<close>.\<close>

definition unpack4 :: "pyval \<Rightarrow> error + (pyval \<times> pyval \<times> pyval \<times> pyval)" where
  "unpack4 v =
     (case iter_values v of
        Inl e \<Rightarrow> Inl e
      | Inr [a, b, c, d] \<Rightarrow> Inr (a, b, c, d)
      | Inr xs \<Rightarrow> Inl (ValueError CannotUnpack))"

text \<open>
  \<open>height, width = img.shape[:2]\<close>: only an array has a shape; fewer than two
  dimensions cannot be unpacked.
\<close>

fun shape2 :: "pyval \<Rightarrow> error + (pyval \<times> pyval)" where
  "shape2 (VArray (h # w # rest)) = Inr (VInt (int h), VInt (int w))"
| "shape2 (VArray shape) = Inl (ValueError CannotUnpack)"
| "shape2 v = Inl AttributeError"

text \<open>
  True division \<open>a / b\<close> (\<open>a /= b\<close>) of numbers; the quotient of two integers is a
  float. Floating-point numbers are represented by the real numbers they denote:
  rounding is not part of the model.
\<close>

fun as_number :: "pyval \<Rightarrow> real option" where
  "as_number (VInt i) = Some (real_of_int i)"
| "as_number (VBool b) = Some (if b then 1 else 0)"
| "as_number (VFloat x) = Some x"
| "as_number v = None"

definition truediv :: "pyval \<Rightarrow> pyval \<Rightarrow> error + pyval" where
  "truediv a b =
     (case (as_number a, as_number b) of
        (Some x, Some y) \<Rightarrow> (if y = 0 then Inl ZeroDivisionError else Inr (VFloat (x / y)))
      | _ \<Rightarrow> Inl TypeError)"

text \<open>The decimal text of an integer.\<close>

fun nat_str :: "nat \<Rightarrow> string" where
  "nat_str n = (if n < 10 then [''0123456789'' ! n]
                else nat_str (n div 10) @ [''0123456789'' ! (n mod 10)])"

declare nat_str.simps [simp del]

definition int_str :: "int \<Rightarrow> string" where
  "int_str i = (if i < 0 then CHR ''-'' # nat_str (nat (- i)) else nat_str (nat i))"

text \<open>
  \<open>str(v)\<close>. The text of a float, a container or an object is left to the
  interpreter: \<open>str_other\<close>.
\<close>

fun py_str :: "(pyval \<Rightarrow> string) \<Rightarrow> pyval \<Rightarrow> string" where
  "py_str str_other (VStr s) = s"
| "py_str str_other (VInt i) = int_str i"
| "py_str str_other (VBool b) = (if b then ''True'' else ''False'')"
| "py_str str_other VNone = ''None''"
| "py_str str_other v = str_other v"

text \<open>\<open>etau.is_str\<close> and \<open>etau.is_numeric\<close>: a \<open>bool\<close> is a number.\<close>

definition is_str :: "pyval \<Rightarrow> bool" where
  "is_str v = isinstance_string_types v"

fun is_numeric :: "pyval \<Rightarrow> bool" where
  "is_numeric (VBool b) = True"
| "is_numeric (VInt i) = True"
| "is_numeric (VFloat x) = True"
| "is_numeric v = False"

section \<open>The labels (\<open>fiftyone.core.labels\<close>)\<close>

text \<open>A label is an embedded document built from keyword arguments.\<close>

definition Classification :: "pyval \<Rightarrow> pyval" where
  "Classification lbl = VEmbedded ''Classification'' [(''label'', lbl)]"

definition Detection :: "pyval \<Rightarrow> pyval \<Rightarrow> pyval \<Rightarrow> pyval \<Rightarrow> pyval" where
  "Detection lbl bounding_box confidence attributes =
     VEmbedded ''Detection'' [(''label'', lbl), (''bounding_box'', bounding_box),
                              (''confidence'', confidence), (''attributes'', attributes)]"

definition Detections :: "pyval list \<Rightarrow> pyval" where
  "Detections detections = VEmbedded ''Detections'' [(''detections'', VList detections)]"

definition ImageLabels :: "pyval \<Rightarrow> pyval" where
  "ImageLabels labels = VEmbedded ''ImageLabels'' [(''labels'', labels)]"

definition CategoricalAttribute :: "pyval \<Rightarrow> pyval" where
  "CategoricalAttribute v = VEmbedded ''CategoricalAttribute'' [(''value'', v)]"

definition BooleanAttribute :: "pyval \<Rightarrow> pyval" where
  "BooleanAttribute v = VEmbedded ''BooleanAttribute'' [(''value'', v)]"

definition NumericAttribute :: "pyval \<Rightarrow> pyval" where
  "NumericAttribute v = VEmbedded ''NumericAttribute'' [(''value'', v)]"

definition Attribute :: "pyval \<Rightarrow> pyval" where
  "Attribute v = VEmbedded ''Attribute'' [(''value'', v)]"

section \<open>The sample parsers (\<open>fiftyone/utils/data/parsers.py\<close>)\<close>

text \<open>Sequencing of computations that may raise: the first error is the result.\<close>

definition ebind :: "error + 'a \<Rightarrow> ('a \<Rightarrow> error + 'b) \<Rightarrow> error + 'b" where
  "ebind r f = (case r of Inl e \<Rightarrow> Inl e | Inr x \<Rightarrow> f x)"

fun emap :: "('a \<Rightarrow> error + 'b) \<Rightarrow> 'a list \<Rightarrow> error + 'b list" where
  "emap f [] = Inr []"
| "emap f (x # xs) = ebind (f x) (\<lambda>y. ebind (emap f xs) (\<lambda>ys. Inr (y # ys)))"

text \<open>
  The parser classes. The three \<open>FiftyOneImage...SampleParser\<close> classes add nothing
  but default arguments to the classification, detection and image-labels parsers,
  of which they are subclasses.
\<close>

datatype parser_cls =
    SampleParser
  | UnlabeledImageSampleParser
  | ImageSampleParser
  | LabeledImageSampleParser
  | LabeledImageTupleSampleParser
  | ImageClassificationSampleParser
  | ImageDetectionSampleParser
  | ImageLabelsSampleParser
  | FiftyOneUnlabeledImageSampleParser
  | FiftyOneLabeledImageSampleParser

fun isinstance_LabeledImageTupleSampleParser :: "parser_cls \<Rightarrow> bool" where
  "isinstance_LabeledImageTupleSampleParser LabeledImageTupleSampleParser = True"
| "isinstance_LabeledImageTupleSampleParser ImageClassificationSampleParser = True"
| "isinstance_LabeledImageTupleSampleParser ImageDetectionSampleParser = True"
| "isinstance_LabeledImageTupleSampleParser ImageLabelsSampleParser = True"
| "isinstance_LabeledImageTupleSampleParser c = False"

fun isinstance_LabeledImageSampleParser :: "parser_cls \<Rightarrow> bool" where
  "isinstance_LabeledImageSampleParser LabeledImageSampleParser = True"
| "isinstance_LabeledImageSampleParser FiftyOneLabeledImageSampleParser = True"
| "isinstance_LabeledImageSampleParser c = isinstance_LabeledImageTupleSampleParser c"

text \<open>
  A parser instance: its class, the cursor (\<open>_current_sample\<close>, and for the tuple
  parsers \<open>_current_image_cache\<close>) and the constructor arguments of the classes. A
  leading underscore of a source name is written \<open>u_\<close>.
\<close>

record parser =
  cls :: parser_cls
  u_current_sample :: pyval
  u_current_image_cache :: pyval
  classes :: pyval
  label_field :: string
  bounding_box_field :: string
  confidence_field :: "string option"
  attributes_field :: "string option"
  normalized :: bool
  expand :: bool
  prefix :: pyval
  labels_dict :: pyval
  multilabel :: bool
  skip_non_categorical :: bool
  compute_metadata :: bool
  label_field_or_dict :: pyval

text \<open>
  The collaborators outside the parsers: \<open>etai.read\<close>, \<open>np.asarray\<close>,
  \<open>etas.load_json\<close>, \<open>etai.ImageLabels.from_json\<close> and \<open>from_dict\<close>,
  \<open>fom.ImageMetadata.build_for\<close>, the text of values that \<open>py_str\<close> leaves open,
  and \<open>fol.ImageLabels.expand\<close>.
\<close>

record env =
  read :: "string \<Rightarrow> error + pyval"
  asarray :: "pyval \<Rightarrow> error + pyval"
  load_json :: "string \<Rightarrow> error + pyval"
  from_json :: "string \<Rightarrow> error + pyval"
  from_dict :: "(string \<times> pyval) list \<Rightarrow> error + pyval"
  build_for :: "pyval \<Rightarrow> error + pyval"
  str_other :: "pyval \<Rightarrow> string"
  expand_labels :: "pyval \<Rightarrow> pyval \<Rightarrow> pyval \<Rightarrow> bool \<Rightarrow> bool \<Rightarrow> error + pyval"

text \<open>The property \<open>current_sample\<close>.\<close>

definition current_sample :: "parser \<Rightarrow> error + pyval" where
  "current_sample p =
     (if u_current_sample p = VNone then Inl (ValueError NoCurrentSample)
      else Inr (u_current_sample p))"

text \<open>
  \<open>clear_sample\<close>: the method of \<open>SampleParser\<close>, which the tuple parsers override
  to drop the cached image as well.
\<close>

definition clear_sample :: "parser \<Rightarrow> parser" where
  "clear_sample p =
     (if isinstance_LabeledImageTupleSampleParser (cls p)
      then p\<lparr>u_current_sample := VNone, u_current_image_cache := VNone\<rparr>
      else p\<lparr>u_current_sample := VNone\<rparr>)"

definition with_sample :: "parser \<Rightarrow> pyval \<Rightarrow> parser" where
  "with_sample p sample = (clear_sample p)\<lparr>u_current_sample := sample\<rparr>"

text \<open>
  The properties \<open>has_image_path\<close>, \<open>has_image_metadata\<close> and \<open>label_cls\<close>. The
  interfaces raise \<open>NotImplementedError\<close>; a class without the property raises
  \<open>AttributeError\<close>.
\<close>

fun has_image_path_cls :: "parser_cls \<Rightarrow> error + bool" where
  "has_image_path_cls SampleParser = Inl AttributeError"
| "has_image_path_cls UnlabeledImageSampleParser = Inl NotImplementedError"
| "has_image_path_cls LabeledImageSampleParser = Inl NotImplementedError"
| "has_image_path_cls c = Inr True"

definition has_image_path :: "parser \<Rightarrow> error + bool" where
  "has_image_path p = has_image_path_cls (cls p)"

fun has_image_metadata_cls :: "parser_cls \<Rightarrow> error + bool" where
  "has_image_metadata_cls SampleParser = Inl AttributeError"
| "has_image_metadata_cls UnlabeledImageSampleParser = Inl NotImplementedError"
| "has_image_metadata_cls LabeledImageSampleParser = Inl NotImplementedError"
| "has_image_metadata_cls FiftyOneUnlabeledImageSampleParser = Inr True"
| "has_image_metadata_cls FiftyOneLabeledImageSampleParser = Inr True"
| "has_image_metadata_cls c = Inr False"

definition has_image_metadata :: "parser \<Rightarrow> error + bool" where
  "has_image_metadata p = has_image_metadata_cls (cls p)"

definition label_cls :: "parser \<Rightarrow> error + string option" where
  "label_cls p =
     (case cls p of
        LabeledImageSampleParser \<Rightarrow> Inl NotImplementedError
      | LabeledImageTupleSampleParser \<Rightarrow> Inr (Some ''Label'')
      | ImageClassificationSampleParser \<Rightarrow> Inr (Some ''Classification'')
      | ImageDetectionSampleParser \<Rightarrow> Inr (Some ''Detections'')
      | ImageLabelsSampleParser \<Rightarrow> Inr (if \<not> expand p then Some ''ImageLabels'' else None)
      | FiftyOneLabeledImageSampleParser \<Rightarrow> Inr (Some ''Label'')
      | _ \<Rightarrow> Inl AttributeError)"

text \<open>\<open>_parse_image\<close>, \<open>_get_image\<close> and the caching property \<open>_current_image\<close>.\<close>

definition read_path :: "env \<Rightarrow> pyval \<Rightarrow> error + pyval" where
  "read_path E path = (case path of VStr s \<Rightarrow> read E s | _ \<Rightarrow> Inl TypeError)"

definition u_parse_image :: "env \<Rightarrow> pyval \<Rightarrow> error + pyval" where
  "u_parse_image E image_or_path =
     (if is_str image_or_path then read_path E image_or_path else asarray E image_or_path)"

definition u_get_image :: "env \<Rightarrow> parser \<Rightarrow> error + pyval" where
  "u_get_image E p =
     ebind (current_sample p) (\<lambda>s. ebind (getitem s (VInt 0)) (u_parse_image E))"

definition u_current_image :: "env \<Rightarrow> parser \<Rightarrow> (error + pyval) \<times> parser" where
  "u_current_image E p =
     (if u_current_image_cache p = VNone
      then (case u_get_image E p of
              Inl e \<Rightarrow> (Inl e, p)
            | Inr img \<Rightarrow> (Inr img, p\<lparr>u_current_image_cache := img\<rparr>))
      else (Inr (u_current_image_cache p), p))"

text \<open>\<open>get_image\<close>\<close>

definition get_image :: "env \<Rightarrow> parser \<Rightarrow> (error + pyval) \<times> parser" where
  "get_image E p =
     (case cls p of
        SampleParser \<Rightarrow> (Inl AttributeError, p)
      | UnlabeledImageSampleParser \<Rightarrow> (Inl NotImplementedError, p)
      | LabeledImageSampleParser \<Rightarrow> (Inl NotImplementedError, p)
      | ImageSampleParser \<Rightarrow> (ebind (current_sample p) (u_parse_image E), p)
      | FiftyOneUnlabeledImageSampleParser \<Rightarrow>
          (ebind (current_sample p) (\<lambda>s. ebind (getattr s ''filepath'') (read_path E)), p)
      | FiftyOneLabeledImageSampleParser \<Rightarrow>
          (ebind (current_sample p) (\<lambda>s. ebind (getattr s ''filepath'') (read_path E)), p)
      | _ \<Rightarrow> u_current_image E p)"

text \<open>\<open>get_image_path\<close>\<close>

definition path_or_error :: "pyval \<Rightarrow> error + pyval" where
  "path_or_error image_or_path =
     (if is_str image_or_path then Inr image_or_path
      else Inl (ValueError CannotExtractImagePath))"

definition get_image_path :: "parser \<Rightarrow> error + pyval" where
  "get_image_path p =
     (case cls p of
        SampleParser \<Rightarrow> Inl AttributeError
      | UnlabeledImageSampleParser \<Rightarrow> Inl NotImplementedError
      | LabeledImageSampleParser \<Rightarrow> Inl NotImplementedError
      | ImageSampleParser \<Rightarrow> ebind (current_sample p) path_or_error
      | FiftyOneUnlabeledImageSampleParser \<Rightarrow>
          ebind (current_sample p) (\<lambda>s. getattr s ''filepath'')
      | FiftyOneLabeledImageSampleParser \<Rightarrow>
          ebind (current_sample p) (\<lambda>s. getattr s ''filepath'')
      | _ \<Rightarrow> ebind (current_sample p) (\<lambda>s. ebind (getitem s (VInt 0)) path_or_error))"

text \<open>\<open>get_image_metadata\<close>\<close>

definition stored_metadata :: "env \<Rightarrow> parser \<Rightarrow> error + pyval" where
  "stored_metadata E p =
     ebind (current_sample p) (\<lambda>s. ebind (getattr s ''metadata'') (\<lambda>metadata.
       if metadata = VNone \<and> compute_metadata p
       then ebind (current_sample p) (\<lambda>s'. ebind (getattr s' ''filepath'') (build_for E))
       else Inr metadata))"

definition get_image_metadata :: "env \<Rightarrow> parser \<Rightarrow> error + pyval" where
  "get_image_metadata E p =
     (case cls p of
        SampleParser \<Rightarrow> Inl AttributeError
      | UnlabeledImageSampleParser \<Rightarrow> Inl NotImplementedError
      | LabeledImageSampleParser \<Rightarrow> Inl NotImplementedError
      | FiftyOneUnlabeledImageSampleParser \<Rightarrow> stored_metadata E p
      | FiftyOneLabeledImageSampleParser \<Rightarrow> stored_metadata E p
      | _ \<Rightarrow> Inl (ValueError DoesNotProvideImageMetadata))"

text \<open>\<open>ImageClassificationSampleParser._parse_label\<close>: any failure of the lookup is caught.\<close>

definition class_label :: "env \<Rightarrow> parser \<Rightarrow> pyval \<Rightarrow> pyval" where
  "class_label E p target =
     (case getitem (classes p) target of
        Inr lbl \<Rightarrow> lbl
      | Inl e \<Rightarrow> VStr (py_str (str_other E) target))"

definition classification_parse_label :: "env \<Rightarrow> parser \<Rightarrow> pyval \<Rightarrow> error + pyval" where
  "classification_parse_label E p target =
     (if target = VNone then Inr VNone
      else Inr (Classification (class_label E p target)))"

text \<open>\<open>ImageDetectionSampleParser._parse_attribute\<close>\<close>

definition u_parse_attribute :: "pyval \<Rightarrow> pyval" where
  "u_parse_attribute v =
     (if is_str v then CategoricalAttribute v
      else if isinstance_bool v then BooleanAttribute v
      else if is_numeric v then NumericAttribute v
      else Attribute v)"

text \<open>
  \<open>_parse_bbox\<close> and \<open>_parse_detection\<close>, with the confidence and the attributes
  of the detection as functions of their own; \<open>if self.confidence_field:\<close> tests the
  name for truth.
\<close>

definition u_parse_bbox :: "parser \<Rightarrow> pyval \<Rightarrow> error + pyval" where
  "u_parse_bbox p obj = getitem obj (VStr (bounding_box_field p))"

fun truthy_name :: "string option \<Rightarrow> string option" where
  "truthy_name None = None"
| "truthy_name (Some s) = (if s = [] then None else Some s)"

definition detection_confidence :: "parser \<Rightarrow> pyval \<Rightarrow> error + pyval" where
  "detection_confidence p obj =
     (case truthy_name (confidence_field p) of
        Some cf \<Rightarrow> dict_get obj cf VNone
      | None \<Rightarrow> Inr VNone)"

definition detection_attributes :: "parser \<Rightarrow> pyval \<Rightarrow> error + pyval" where
  "detection_attributes p obj =
     (case truthy_name (attributes_field p) of
        Some af \<Rightarrow>
          ebind (dict_get obj af (VDict [])) (\<lambda>attrs.
          ebind (dict_items attrs) (\<lambda>kvs.
            Inr (VDict (map (\<lambda>kv. (fst kv, u_parse_attribute (snd kv))) kvs))))
      | None \<Rightarrow> Inr VNone)"

definition u_parse_detection :: "env \<Rightarrow> parser \<Rightarrow> pyval \<Rightarrow> pyval \<Rightarrow> error + pyval" where
  "u_parse_detection E p obj img =
     ebind (getitem obj (VStr (label_field p))) (\<lambda>lbl0.
     let lbl = class_label E p lbl0 in
     ebind (ebind (u_parse_bbox p obj) unpack4) (\<lambda>(tlx0, tly0, w0, h0).
     ebind (if \<not> normalized p
            then ebind (shape2 img) (\<lambda>(height, width).
                 ebind (truediv tlx0 width) (\<lambda>tlx.
                 ebind (truediv tly0 height) (\<lambda>tly.
                 ebind (truediv w0 width) (\<lambda>w.
                 ebind (truediv h0 height) (\<lambda>h. Inr (tlx, tly, w, h))))))
            else Inr (tlx0, tly0, w0, h0)) (\<lambda>(tlx, tly, w, h).
     let bounding_box = VList [tlx, tly, w, h] in
     ebind (detection_confidence p obj) (\<lambda>confidence.
     ebind (detection_attributes p obj) (\<lambda>attributes.
     Inr (Detection lbl bounding_box confidence attributes))))))"

text \<open>\<open>ImageDetectionSampleParser._parse_label\<close> and \<open>get_label\<close>\<close>

definition detection_parse_label :: "env \<Rightarrow> parser \<Rightarrow> pyval \<Rightarrow> pyval \<Rightarrow> error + pyval" where
  "detection_parse_label E p target img =
     (if target = VNone then Inr VNone
      else ebind (case target of VStr path \<Rightarrow> load_json E path | _ \<Rightarrow> Inr target) (\<lambda>target'.
           ebind (iter_values target') (\<lambda>objs.
           ebind (emap (\<lambda>obj. u_parse_detection E p obj img) objs) (\<lambda>ds.
           Inr (Detections ds)))))"

definition detection_get_label :: "env \<Rightarrow> parser \<Rightarrow> (error + pyval) \<times> parser" where
  "detection_get_label E p =
     (case ebind (current_sample p) (\<lambda>s. getitem s (VInt 1)) of
        Inl e \<Rightarrow> (Inl e, p)
      | Inr target \<Rightarrow>
          (if \<not> normalized p
           then (case u_current_image E p of
                   (Inl e, p') \<Rightarrow> (Inl e, p')
                 | (Inr img, p') \<Rightarrow> (detection_parse_label E p' target img, p'))
           else (detection_parse_label E p target VNone, p)))"

text \<open>\<open>ImageLabelsSampleParser._parse_label\<close>\<close>

definition imagelabels_parse_label :: "env \<Rightarrow> parser \<Rightarrow> pyval \<Rightarrow> error + pyval" where
  "imagelabels_parse_label E p labels0 =
     ebind (case labels0 of
              VStr s \<Rightarrow> from_json E s
            | VDict d \<Rightarrow> from_dict E d
            | _ \<Rightarrow> Inr labels0) (\<lambda>labels.
     let label = ImageLabels labels in
     if label \<noteq> VNone \<and> expand p
     then expand_labels E label (prefix p) (labels_dict p) (multilabel p) (skip_non_categorical p)
     else Inr label)"

text \<open>
  \<open>FiftyOneLabeledImageSampleParser.get_label\<close>: the comprehension reads the current
  sample once for every entry of the mapping, then stores the value under the entry's
  key; the keys of the result are names.
\<close>

fun fiftyone_label_dict ::
  "parser \<Rightarrow> (string \<times> pyval) list \<Rightarrow> (string \<times> pyval) list \<Rightarrow> error + pyval" where
  "fiftyone_label_dict p acc [] = Inr (VDict acc)"
| "fiftyone_label_dict p acc ((k, v) # kvs) =
     ebind (ebind (current_sample p) (\<lambda>s. getitem s (VStr k))) (\<lambda>x.
       case name_of v of
         None \<Rightarrow> Inl TypeError
       | Some key \<Rightarrow> fiftyone_label_dict p (AList.update key x acc) kvs)"

definition fiftyone_get_label :: "parser \<Rightarrow> error + pyval" where
  "fiftyone_get_label p =
     (case label_field_or_dict p of
        VDict d \<Rightarrow> fiftyone_label_dict p [] d
      | _ \<Rightarrow> ebind (current_sample p) (\<lambda>s. getitem s (label_field_or_dict p)))"

text \<open>\<open>get_label\<close>\<close>

definition get_label :: "env \<Rightarrow> parser \<Rightarrow> (error + pyval) \<times> parser" where
  "get_label E p =
     (case cls p of
        LabeledImageSampleParser \<Rightarrow> (Inl NotImplementedError, p)
      | LabeledImageTupleSampleParser \<Rightarrow>
          (ebind (current_sample p) (\<lambda>s. getitem s (VInt 1)), p)
      | ImageClassificationSampleParser \<Rightarrow>
          (ebind (ebind (current_sample p) (\<lambda>s. getitem s (VInt 1)))
                 (classification_parse_label E p), p)
      | ImageDetectionSampleParser \<Rightarrow> detection_get_label E p
      | ImageLabelsSampleParser \<Rightarrow>
          (ebind (ebind (current_sample p) (\<lambda>s. getitem s (VInt 1)))
                 (imagelabels_parse_label E p), p)
      | FiftyOneLabeledImageSampleParser \<Rightarrow> (fiftyone_get_label p, p)
      | _ \<Rightarrow> (Inl AttributeError, p))"

text \<open>
  The accessors of a parser, and a call of one of them: the value returned or the
  error raised, and the parser afterwards.
\<close>

datatype accessor = GetImage | GetImagePath | GetImageMetadata | GetLabel

fun call :: "env \<Rightarrow> parser \<Rightarrow> accessor \<Rightarrow> (error + pyval) \<times> parser" where
  "call E p GetImage = get_image E p"
| "call E p GetImagePath = (get_image_path p, p)"
| "call E p GetImageMetadata = (get_image_metadata E p, p)"
| "call E p GetLabel = get_label E p"

text \<open>
  The accessors whose body, in the parser's class, reads \<open>self.current_sample\<close> when
  no image is cached: all those the class implements, except \<open>get_image_metadata\<close> of
  the parsers without metadata (it raises before reading anything) and \<open>get_label\<close>
  of the stored-sample parser with an empty mapping (its comprehension has nothing to
  read).
\<close>

fun reads_current_sample :: "parser \<Rightarrow> accessor \<Rightarrow> bool" where
  "reads_current_sample p GetImage =
     (cls p \<notin> {SampleParser, UnlabeledImageSampleParser, LabeledImageSampleParser})"
| "reads_current_sample p GetImagePath =
     (cls p \<notin> {SampleParser, UnlabeledImageSampleParser, LabeledImageSampleParser})"
| "reads_current_sample p GetImageMetadata =
     (cls p \<in> {FiftyOneUnlabeledImageSampleParser, FiftyOneLabeledImageSampleParser})"
| "reads_current_sample p GetLabel =
     (isinstance_LabeledImageTupleSampleParser (cls p)
      \<or> (cls p = FiftyOneLabeledImageSampleParser \<and> label_field_or_dict p \<noteq> VDict []))"

text \<open>
  A parser as its constructor leaves it when every optional argument is omitted, and
  collaborators for the examples: every image read from disk is 200 pixels wide and
  100 high, with three channels.
\<close>

definition default_parser :: "parser_cls \<Rightarrow> parser" where
  "default_parser c =
     \<lparr> cls = c, u_current_sample = VNone, u_current_image_cache = VNone, classes = VNone,
       label_field = ''label'', bounding_box_field = ''bounding_box'',
       confidence_field = None, attributes_field = None, normalized = True,
       expand = True, prefix = VNone, labels_dict = VNone, multilabel = False,
       skip_non_categorical = False, compute_metadata = False,
       label_field_or_dict = VNone \<rparr>"

definition example_env :: env where
  "example_env =
     \<lparr> read = (\<lambda>path. Inr (VArray [100, 200, 3])),
       asarray = (\<lambda>v. Inr v),
       load_json = (\<lambda>path. Inl (ExternalError ''load_json'')),
       from_json = (\<lambda>str. Inr (VObject ''etai.ImageLabels'')),
       from_dict = (\<lambda>d. Inr (VObject ''etai.ImageLabels'')),
       build_for = (\<lambda>path. Inr (VEmbedded ''ImageMetadata'' [])),
       str_other = (\<lambda>v. ''<object>''),
       expand_labels = (\<lambda>label pre ld ml snc. Inr (VDict [])) \<rparr>"


section \<open>The ingestion pipeline (\<open>add_labeled_images\<close>)\<close>

text \<open>
  Modelled from the spec: the class \<open>Sample\<close> that \<open>parsers.py\<close> constructs with
  \<open>fos.Sample(filepath=..., metadata=..., tags=...)\<close> is not under \<open>src/\<close>. A Sample
  is "a record bound to a Schema Registry" that "exposes dict-like field get/set with
  validation routed through the registry": a sample that is not yet in a collection
  is an instance of the sample class of \<open>sample.py\<close> with a schema of its own, holding
  the constructor's arguments. Its item assignment is \<open>ODMSample.__setitem__\<close>.
\<close>

definition Sample :: "pyval \<Rightarrow> pyval \<Rightarrow> pyval \<Rightarrow> odm" where
  "Sample filepath metadata tags =
     ODMSample\<lparr>data := [''filepath'' \<mapsto> filepath, ''metadata'' \<mapsto> metadata, ''tags'' \<mapsto> tags]\<rparr>"

text \<open>
  Modelled from the spec: \<open>Sample.update_fields\<close> is not under \<open>src/\<close>. "Each entry
  is written into the Sample under its own field name", in the order of the mapping;
  the first write that fails ends the update.
\<close>

fun update_fields ::
  "(field \<Rightarrow> pyval \<Rightarrow> bool) \<Rightarrow> odm \<Rightarrow> (string \<times> pyval) list \<Rightarrow> error option \<times> odm" where
  "update_fields validate st [] = (None, st)"
| "update_fields validate st ((k, v) # kvs) =
     (case ODMSample_setitem validate st k v of
        (Some e, st') \<Rightarrow> (Some e, st')
      | (None, st') \<Rightarrow> update_fields validate st' kvs)"

text \<open>
  \<open>parse_sample\<close>, the function \<open>add_labeled_images\<close> maps over the records: the
  sample built from the record, or the error raised, and the parser afterwards.
\<close>

definition parse_sample ::
  "env \<Rightarrow> (field \<Rightarrow> pyval \<Rightarrow> bool) \<Rightarrow> string \<Rightarrow> pyval \<Rightarrow> parser \<Rightarrow> pyval
     \<Rightarrow> (error + odm) \<times> parser" where
  "parse_sample E validate label_fld tags sample_parser sample =
     (let p1 = with_sample sample_parser sample in
      case get_image_path p1 of
        Inl e \<Rightarrow> (Inl e, p1)
      | Inr image_path \<Rightarrow>
     (case ebind (has_image_metadata p1)
                 (\<lambda>hm. if hm then get_image_metadata E p1 else Inr VNone) of
        Inl e \<Rightarrow> (Inl e, p1)
      | Inr metadata \<Rightarrow>
     (case get_label E p1 of
        (Inl e, p2) \<Rightarrow> (Inl e, p2)
      | (Inr label, p2) \<Rightarrow>
         (let smp = Sample image_path metadata tags in
          case label of
            VDict d \<Rightarrow>
              (case update_fields validate smp d of
                 (Some e, smp') \<Rightarrow> (Inl e, p2)
               | (None, smp') \<Rightarrow> (Inr smp', p2))
          | VNone \<Rightarrow> (Inr smp, p2)
          | _ \<Rightarrow>
              (case ODMSample_setitem validate smp label_fld label of
                 (Some e, smp') \<Rightarrow> (Inl e, p2)
               | (None, smp') \<Rightarrow> (Inr smp', p2))))))"

text \<open>
  Modelled from the spec: the dataset and its methods \<open>_ensure_label_field\<close> and
  \<open>add_samples\<close> are not under \<open>src/\<close>. A collection is a schema shared by its
  samples (here the class part of \<open>sample_doc\<close>) and the samples the store holds.
\<close>

record dataset =
  sample_doc :: odm
  stored :: "odm list"

text \<open>
  Modelled from the spec: \<open>ensure_field\<close> is "idempotent: no-op if name exists with
  a compatible kind; creates it otherwise". The label field is an embedded-document
  field of the parser's label class, created with \<open>add_field\<close>.
\<close>

definition ensure_label_field :: "dataset \<Rightarrow> string \<Rightarrow> string \<Rightarrow> error option \<times> dataset" where
  "ensure_label_field ds label_fld lcls =
     (if (case cls_fields (sample_doc ds) label_fld of
            Some f \<Rightarrow> ftype f = EmbeddedDocumentField \<and> document_type f = Some lcls
          | None \<Rightarrow> False)
      then (None, ds)
      else (case add_field (sample_doc ds) label_fld EmbeddedDocumentField (Some lcls) None of
              (r, doc) \<Rightarrow> (r, ds\<lparr>sample_doc := doc\<rparr>)))"

text \<open>
  Modelled from the spec: schema expansion adds to the collection's schema every
  field of the sample that it lacks; without expansion "any record whose resolved
  field set is not already a subset of the Schema fails the whole operation".
\<close>

fun expand_to :: "odm \<Rightarrow> odm \<Rightarrow> string list \<Rightarrow> error option \<times> odm" where
  "expand_to doc smp [] = (None, doc)"
| "expand_to doc smp (n # ns) =
     (if n \<in> dom (cls_fields doc) then expand_to doc smp ns
      else (case cls_fields smp n of
              None \<Rightarrow> expand_to doc smp ns
            | Some f \<Rightarrow>
               (case add_field doc n (ftype f) (document_type f) (subfield f) of
                  (Some e, doc') \<Rightarrow> (Some e, doc')
                | (None, doc') \<Rightarrow> expand_to doc' smp ns)))"

definition reconcile_schema :: "dataset \<Rightarrow> odm \<Rightarrow> bool \<Rightarrow> error option \<times> dataset" where
  "reconcile_schema ds smp expand_schema =
     (if expand_schema
      then (case expand_to (sample_doc ds) smp (cls_fields_ordered smp) of
              (r, doc) \<Rightarrow> (r, ds\<lparr>sample_doc := doc\<rparr>))
      else if list_all (\<lambda>n. n \<in> dom (cls_fields (sample_doc ds))) (cls_fields_ordered smp)
      then (None, ds)
      else (Some (ValueError SchemaNotSubset), ds))"

text \<open>
  Modelled from the spec: the store's \<open>create_or_update(sample) -> id\<close> with its
  "uniqueness constraint enforced on \<open>filepath\<close>"; the id of a sample is its position.
\<close>

definition create_or_update :: "dataset \<Rightarrow> odm \<Rightarrow> (error + nat) \<times> dataset" where
  "create_or_update ds smp =
     (if list_ex (\<lambda>s. data s ''filepath'' = data smp ''filepath'') (stored ds)
      then (Inl (ExternalError ''NotUniqueError''), ds)
      else (Inr (length (stored ds)), ds\<lparr>stored := stored ds @ [smp\<lparr>in_db := True\<rparr>]\<rparr>))"

text \<open>
  Modelled from the spec: \<open>add_samples\<close> consumes the lazily mapped records one at a
  time, so each record is parsed when its turn comes; the first failure aborts the
  batch; the result is "the ordered sequence of newly created Sample identifiers".
  \<open>num_samples\<close> only feeds the progress display.
\<close>

fun add_samples ::
  "(parser \<Rightarrow> pyval \<Rightarrow> (error + odm) \<times> parser) \<Rightarrow> dataset \<Rightarrow> parser \<Rightarrow> pyval list \<Rightarrow> bool
     \<Rightarrow> nat option \<Rightarrow> nat list \<Rightarrow> (error + nat list) \<times> dataset \<times> parser" where
  "add_samples parse ds p [] expand_schema num_samples ids = (Inr ids, ds, p)"
| "add_samples parse ds p (x # xs) expand_schema num_samples ids =
     (case parse p x of
        (Inl e, p') \<Rightarrow> (Inl e, ds, p')
      | (Inr smp, p') \<Rightarrow>
         (case reconcile_schema ds smp expand_schema of
            (Some e, ds') \<Rightarrow> (Inl e, ds', p')
          | (None, ds') \<Rightarrow>
             (case create_or_update ds' smp of
                (Inl e, ds'') \<Rightarrow> (Inl e, ds'', p')
              | (Inr i, ds'') \<Rightarrow>
                  add_samples parse ds'' p' xs expand_schema num_samples (ids @ [i]))))"

text \<open>
  \<open>add_labeled_images\<close>. \<open>samples\<close> are the records in the order the iterable
  yields them; \<open>has_len\<close> tells whether \<open>len(samples)\<close> is defined.
\<close>

definition add_labeled_images ::
  "env \<Rightarrow> (field \<Rightarrow> pyval \<Rightarrow> bool) \<Rightarrow> dataset \<Rightarrow> pyval list \<Rightarrow> bool \<Rightarrow> parser \<Rightarrow> string
     \<Rightarrow> pyval \<Rightarrow> bool \<Rightarrow> (error + nat list) \<times> dataset \<times> parser" where
  "add_labeled_images E validate ds samples has_len sample_parser label_fld tags expand_schema =
     (let num_samples = (if has_len then Some (length samples) else None);
          run = (\<lambda>ds' expand_schema'.
                   add_samples (parse_sample E validate label_fld tags) ds' sample_parser
                     samples expand_schema' num_samples [])
      in case has_image_path sample_parser of
           Inl e \<Rightarrow> (Inl e, ds, sample_parser)
         | Inr False \<Rightarrow> (Inl (ValueError MustHaveImagePath), ds, sample_parser)
         | Inr True \<Rightarrow>
        (if \<not> isinstance_LabeledImageSampleParser (cls sample_parser)
         then (Inl (ValueError MustBeSubclass), ds, sample_parser)
         else if expand_schema
         then (case label_cls sample_parser of
                 Inl e \<Rightarrow> (Inl e, ds, sample_parser)
               | Inr None \<Rightarrow> run ds True
               | Inr (Some lcls) \<Rightarrow>
                  (case ensure_label_field ds label_fld lcls of
                     (Some e, ds') \<Rightarrow> (Inl e, ds', sample_parser)
                   | (None, ds') \<Rightarrow> run ds' False))
         else run ds False))"

text \<open>A dataset with the declared schema and no samples.\<close>

definition empty_dataset :: dataset where
  "empty_dataset = \<lparr> sample_doc = ODMSample, stored = [] \<rparr>"

text \<open>
  A stored sample with two label fields, and a parser that reads both of them under
  new names.
\<close>

definition example_stored_sample :: pyval where
  "example_stored_sample =
     VSample [(''filepath'', VStr ''a.jpg''), (''metadata'', VNone),
              (''gt'', Classification (VStr ''cat'')),
              (''pred'', Classification (VStr ''dog''))]"

definition example_mapping_parser :: parser where
  "example_mapping_parser =
     (default_parser FiftyOneLabeledImageSampleParser)
       \<lparr>label_field_or_dict := VDict [(''gt'', VStr ''truth''), (''pred'', VStr ''guess'')]\<rparr>"

section \<open>Properties of the sample class\<close>




lemma add_implied_field_cases:
  "add_implied_field st n v = (Some AssertionError, st)
     \<or> add_implied_field st n v = (Some TypeError, st)
     \<or> (\<exists>t e. add_implied_field st n v = add_field st n t e None)"
  unfolding add_implied_field_def by (auto split: if_splits)




text \<open>
  C2. Implied-field type inference tests the value in the priority order embedded
  document, bool, int, string, list or tuple, dict: for a name that is not yet a
  field, \<open>_add_implied_field\<close> adds the field of the first kind of the table that
  matches and raises \<open>TypeError\<close> when none does. A boolean value gets a
  \<open>BooleanField\<close>, although it is also an integer.
\<close>

theorem add_implied_field_priority:
  assumes "field_name \<notin> dom (cls_fields st)"
  shows "add_implied_field st field_name v =
           (case spec_infer_kind v of
              None \<Rightarrow> (Some TypeError, st)
            | Some k \<Rightarrow> add_field st field_name (field_cls_of_kind k) (type_of_embedded v) None)
         \<and> spec_infer_kind (VBool b) = Some KBool
         \<and> fst (add_implied_field st field_name (VBool b)) = None
         \<and> map_option ftype (cls_fields (snd (add_implied_field st field_name (VBool b))) field_name)
             = Some BooleanField"
proof -
  have "add_implied_field st field_name v =
           (case spec_infer_kind v of
              None \<Rightarrow> (Some TypeError, st)
            | Some k \<Rightarrow> add_field st field_name (field_cls_of_kind k) (type_of_embedded v) None)"
    using assms
    by (cases v) (simp_all add: add_implied_field_def spec_infer_kind_def kind_table_def)
  moreover have "spec_infer_kind (VBool b) = Some KBool"
    by (simp add: spec_infer_kind_def kind_table_def)
  moreover have "add_implied_field st field_name (VBool b)
                   = add_field st field_name BooleanField None None"
    using assms by (simp add: add_implied_field_def)
  ultimately show ?thesis
    using assms by (simp add: add_field_def Let_def)
qed

theorem add_implied_field_priority_witness:
  "''flag'' \<notin> dom (cls_fields ODMSample)
   \<and> add_implied_field ODMSample ''flag'' (VFloat 2.5) = (Some TypeError, ODMSample)
   \<and> fst (add_implied_field ODMSample ''flag'' (VBool True)) = None
   \<and> map_option ftype (cls_fields (snd (add_implied_field ODMSample ''flag'' (VBool True))) ''flag'')
       = Some BooleanField"
proof -
  have h: "''flag'' \<notin> dom (cls_fields ODMSample)"
    by (simp add: ODMSample_def)
  have k: "spec_infer_kind (VFloat 2.5) = None"
    by (simp add: spec_infer_kind_def kind_table_def)
  show ?thesis
    using h k add_implied_field_priority [OF h, of "VFloat 2.5" True] by simp
qed

text \<open>
  C3 (as amended). A write of a value other than \<open>None\<close> to a declared field whose
  name does not start with \<open>_\<close> is validated before it is stored: when the validator
  rejects the value the write raises \<open>ValidationError\<close> and the sample is exactly as
  before; otherwise the value is stored (and the sample saved when it is in the
  database).
\<close>

theorem setattr_validates_before_write:
  assumes "cls_fields st n = Some f" and "cls_attrs st n = Some (FieldAttr f)"
    and "\<not> startswith_underscore n" and "v \<noteq> VNone"
  shows "ODMSample_setattr validate st n v =
     (if validate f v
      then (None, st\<lparr> data := (data st)(n \<mapsto> v),
                      saves := (if n \<noteq> ''id'' \<and> in_db st then Suc (saves st) else saves st) \<rparr>)
      else (Some ValidationError, st))"
  using assms
  by (auto simp add: ODMSample_setattr_def super_setattr_def hasattr_cls_def hasattr_self_def
        dom_def)

theorem setattr_validates_before_write_witness:
  "cls_fields ODMSample ''filepath'' = Some filepath_field
   \<and> cls_attrs ODMSample ''filepath'' = Some (FieldAttr filepath_field)
   \<and> \<not> startswith_underscore ''filepath'' \<and> VInt 3 \<noteq> VNone
   \<and> \<not> validate_kind filepath_field (VInt 3)
   \<and> ODMSample_setattr validate_kind ODMSample ''filepath'' (VInt 3)
       = (Some ValidationError, ODMSample)"
proof -
  have h1: "cls_fields ODMSample ''filepath'' = Some filepath_field"
    by (simp add: ODMSample_def)
  have h2: "cls_attrs ODMSample ''filepath'' = Some (FieldAttr filepath_field)"
    by (simp add: ODMSample_def)
  have h3: "\<not> startswith_underscore ''filepath''" by simp
  have h4: "VInt 3 \<noteq> VNone" by simp
  have h5: "\<not> validate_kind filepath_field (VInt 3)"
    by (simp add: filepath_field_def)
  show ?thesis
    using h1 h2 h3 h4 h5 setattr_validates_before_write [OF h1 h2 h3 h4, of validate_kind]
    by simp
qed

text \<open>
  C3 as stated fails for the value \<open>None\<close>: it is not a string, yet writing it to the
  string field \<open>filepath\<close> is accepted without validation and changes the sample.
  It also fails for a declared field whose name starts with \<open>_\<close>: after
  \<open>add_field("_x", IntField)\<close> a string is stored in \<open>_x\<close> unvalidated.
\<close>

theorem setattr_none_not_validated_counterexample:
  "cls_fields ODMSample ''filepath'' = Some filepath_field
   \<and> \<not> validate_kind filepath_field VNone
   \<and> ODMSample_setattr validate_kind ODMSample ''filepath'' VNone
       = (None, ODMSample\<lparr>data := [''filepath'' \<mapsto> VNone]\<rparr>)
   \<and> ODMSample\<lparr>data := [''filepath'' \<mapsto> VNone]\<rparr> \<noteq> ODMSample
   \<and> map_option ftype (cls_fields (snd (add_field ODMSample ''_x'' IntField None None)) ''_x'')
       = Some IntField
   \<and> fst (ODMSample_setattr validate_kind (snd (add_field ODMSample ''_x'' IntField None None))
             ''_x'' (VStr ''a'')) = None
   \<and> data (snd (ODMSample_setattr validate_kind
                   (snd (add_field ODMSample ''_x'' IntField None None)) ''_x'' (VStr ''a''))) ''_x''
       = Some (VStr ''a'')"
proof -
  have "data (ODMSample\<lparr>data := [''filepath'' \<mapsto> VNone]\<rparr>) ''filepath'' \<noteq> data ODMSample ''filepath''"
    by (simp add: ODMSample_def)
  then have "ODMSample\<lparr>data := [''filepath'' \<mapsto> VNone]\<rparr> \<noteq> ODMSample"
    by metis
  then show ?thesis
    by (simp add: ODMSample_setattr_def ODMSample_def hasattr_self_def hasattr_cls_def
          super_setattr_def filepath_field_def add_field_def Let_def)
qed





section \<open>Properties of the parsers\<close>

lemma u_current_image_state:
  "snd (u_current_image E q) = q
     \<or> (\<exists>img. snd (u_current_image E q) = q\<lparr>u_current_image_cache := img\<rparr>)"
  by (auto simp add: u_current_image_def split: sum.splits)

lemma with_sample_cache:
  "isinstance_LabeledImageTupleSampleParser (cls q) \<Longrightarrow>
     with_sample (q\<lparr>u_current_image_cache := img\<rparr>) b = with_sample q b"
  by (simp add: with_sample_def clear_sample_def)

lemma call_state:
  "snd (call E q acc) = q
     \<or> (isinstance_LabeledImageTupleSampleParser (cls q)
          \<and> (\<exists>img. snd (call E q acc) = q\<lparr>u_current_image_cache := img\<rparr>))"
proof (cases acc)
  case GetImage
  then show ?thesis using u_current_image_state [of E q]
    by (cases "cls q") (auto simp add: get_image_def)
next
  case GetLabel
  then show ?thesis using u_current_image_state [of E q]
    by (cases "cls q")
       (auto simp add: get_label_def detection_get_label_def split: sum.splits prod.splits)
qed simp_all

lemma with_sample_call: "with_sample (snd (call E q acc)) b = with_sample q b"
  using call_state [of E q acc] with_sample_cache by auto

lemma with_sample_calls:
  "with_sample (foldl (\<lambda>q acc. snd (call E q acc)) q accs) b = with_sample q b"
  by (induction accs arbitrary: q) (simp_all add: with_sample_call)

lemma call_after_clear_sample:
  assumes "reads_current_sample p acc"
  shows "fst (call E (clear_sample p) acc) = Inl (ValueError NoCurrentSample)"
  using assms
  apply (cases acc; cases "cls p")
  apply (simp_all add: clear_sample_def get_image_def get_image_path_def
     get_image_metadata_def get_label_def u_current_image_def u_get_image_def
     current_sample_def ebind_def stored_metadata_def detection_get_label_def
     fiftyone_get_label_def split: pyval.splits)
  subgoal by (auto simp add: current_sample_def ebind_def neq_Nil_conv)
  done

text \<open>
  C4. Positioning a parser on a record \<open>a\<close>, calling any accessors (which may cache
  the decoded image of \<open>a\<close>), then positioning it on \<open>b\<close> leaves the parser exactly
  as positioning it on \<open>b\<close> directly does: the current record is \<open>b\<close>, a tuple
  parser's image cache is empty, and every accessor answers as on a parser that never
  saw \<open>a\<close>. \<open>clear_sample\<close> is idempotent, and after it every accessor that reads the
  current record raises the no-current-sample error.
\<close>

theorem parser_cursor_discipline:
  "with_sample (foldl (\<lambda>q acc. snd (call E q acc)) (with_sample p a) accs) b = with_sample p b
   \<and> call E (with_sample (foldl (\<lambda>q acc. snd (call E q acc)) (with_sample p a) accs) b) acc
       = call E (with_sample p b) acc
   \<and> u_current_sample (with_sample p b) = b
   \<and> (isinstance_LabeledImageTupleSampleParser (cls p) \<longrightarrow>
        u_current_image_cache (with_sample p b) = VNone)
   \<and> clear_sample (clear_sample p) = clear_sample p
   \<and> (reads_current_sample p acc \<longrightarrow>
        fst (call E (clear_sample p) acc) = Inl (ValueError NoCurrentSample))"
proof -
  have "with_sample (with_sample p a) b = with_sample p b"
    by (simp add: with_sample_def clear_sample_def)
  then have e: "with_sample (foldl (\<lambda>q acc. snd (call E q acc)) (with_sample p a) accs) b
                  = with_sample p b"
    by (simp add: with_sample_calls)
  have "clear_sample (clear_sample p) = clear_sample p"
    by (simp add: clear_sample_def)
  moreover have "u_current_sample (with_sample p b) = b"
    by (simp add: with_sample_def)
  moreover have "isinstance_LabeledImageTupleSampleParser (cls p) \<longrightarrow>
                   u_current_image_cache (with_sample p b) = VNone"
    by (simp add: with_sample_def clear_sample_def)
  ultimately show ?thesis
    using e call_after_clear_sample [of p acc E] by simp
qed

theorem parser_cursor_discipline_witness:
  "isinstance_LabeledImageTupleSampleParser
      (cls ((default_parser ImageDetectionSampleParser)\<lparr>normalized := False\<rparr>))
   \<and> u_current_image_cache
        (snd (call example_env
                (with_sample ((default_parser ImageDetectionSampleParser)\<lparr>normalized := False\<rparr>)
                   (VTuple [VStr ''a.jpg'', VNone])) GetLabel))
       = VArray [100, 200, 3]
   \<and> u_current_image_cache
        (with_sample
           (snd (call example_env
                   (with_sample ((default_parser ImageDetectionSampleParser)\<lparr>normalized := False\<rparr>)
                      (VTuple [VStr ''a.jpg'', VNone])) GetLabel))
           (VTuple [VStr ''b.jpg'', VNone]))
       = VNone
   \<and> reads_current_sample ((default_parser ImageDetectionSampleParser)\<lparr>normalized := False\<rparr>) GetLabel
   \<and> fst (call example_env
             (clear_sample ((default_parser ImageDetectionSampleParser)\<lparr>normalized := False\<rparr>))
             GetLabel)
       = Inl (ValueError NoCurrentSample)"
proof -
  let ?p = "(default_parser ImageDetectionSampleParser)\<lparr>normalized := False\<rparr>"
  have h1: "isinstance_LabeledImageTupleSampleParser (cls ?p)"
    by (simp add: default_parser_def)
  have h2: "reads_current_sample ?p GetLabel"
    by (simp add: default_parser_def)
  have h3: "u_current_image_cache
              (snd (call example_env (with_sample ?p (VTuple [VStr ''a.jpg'', VNone])) GetLabel))
            = VArray [100, 200, 3]"
    by (simp add: default_parser_def with_sample_def clear_sample_def get_label_def
          detection_get_label_def current_sample_def ebind_def seq_index_def u_current_image_def
          u_get_image_def u_parse_image_def is_str_def read_path_def example_env_def)
  from parser_cursor_discipline
         [of example_env ?p "VTuple [VStr ''a.jpg'', VNone]" "[GetLabel]"
             "VTuple [VStr ''b.jpg'', VNone]" GetLabel]
       h1 h2 h3
  show ?thesis by simp
qed

text \<open>
  C8. The classification parser never raises on a target: \<open>None\<close> gives no label;
  any other target gives a \<open>Classification\<close> whose label is \<open>classes[target]\<close> when
  that lookup succeeds and the string form of the target when it fails for whatever
  reason (index out of range, no table, a target that is not an index). With
  \<open>classes = ["cat", "dog"]\<close> the target 5 gives \<open>Classification(label="5")\<close>.
\<close>

theorem classification_label_fallback:
  "classification_parse_label E p target =
     (if target = VNone then Inr VNone
      else case getitem (classes p) target of
             Inr lbl \<Rightarrow> Inr (Classification lbl)
           | Inl e \<Rightarrow> Inr (Classification (VStr (py_str (str_other E) target))))
   \<and> (\<forall>e. classification_parse_label E p target \<noteq> Inl e)
   \<and> classification_parse_label E (p\<lparr>classes := VList [VStr ''cat'', VStr ''dog'']\<rparr>) (VInt 5)
        = Inr (Classification (VStr ''5''))
   \<and> classification_parse_label E (p\<lparr>classes := VList [VStr ''cat'', VStr ''dog'']\<rparr>) (VInt 1)
        = Inr (Classification (VStr ''dog''))
   \<and> classification_parse_label E (p\<lparr>classes := VNone\<rparr>) (VStr ''cat'')
        = Inr (Classification (VStr ''cat''))
   \<and> fst (get_label E (with_sample (p\<lparr>cls := ImageClassificationSampleParser\<rparr>)
                          (VTuple [x, target])))
        = classification_parse_label E p target"
  apply (intro conjI)
  subgoal by (simp add: classification_parse_label_def class_label_def split: sum.splits)
  subgoal by (simp add: classification_parse_label_def)
  subgoal by (simp add: classification_parse_label_def class_label_def seq_index_def
                int_str_def nat_str.simps)
  subgoal by (simp add: classification_parse_label_def class_label_def seq_index_def)
  subgoal by (simp add: classification_parse_label_def class_label_def)
  subgoal by (simp add: get_label_def with_sample_def clear_sample_def current_sample_def
                ebind_def seq_index_def classification_parse_label_def class_label_def)
  done







section \<open>Properties of the ingestion pipeline\<close>

lemma ensure_label_field_exists:
  "label_fld \<in> dom (cls_fields (sample_doc (snd (ensure_label_field ds label_fld lcls))))"
  by (auto simp add: ensure_label_field_def add_field_def Let_def split: option.splits)

lemma ensure_label_field_stored:
  "stored (snd (ensure_label_field ds label_fld lcls)) = stored ds"
  by (auto simp add: ensure_label_field_def split: prod.splits)

lemma create_or_update_doc:
  "sample_doc (snd (create_or_update ds smp)) = sample_doc ds"
  by (simp add: create_or_update_def)

lemma add_samples_keeps_schema:
  "sample_doc (fst (snd (add_samples parse ds p xs False n ids))) = sample_doc ds"
proof (induction xs arbitrary: ds p ids)
  case Nil
  then show ?case by simp
next
  case (Cons x xs)
  show ?case
  proof (cases "parse p x")
    case (Pair r p')
    show ?thesis
    proof (cases r)
      case (Inl e)
      with Pair show ?thesis by simp
    next
      case (Inr smp)
      show ?thesis
      proof (cases "create_or_update ds smp")
        case P2: (Pair r2 ds2)
        then have d: "sample_doc ds2 = sample_doc ds"
          using create_or_update_doc [of ds smp] by simp
        show ?thesis
          using Pair Inr P2 d Cons.IH [of ds2 p']
          by (cases r2) (simp_all add: reconcile_schema_def)
      qed
    qed
  qed
qed

text \<open>
  C1. When \<open>add_labeled_images\<close> is called with schema expansion enabled and the
  parser declares a label class, the label field is ensured before \<open>add_samples\<close>
  consumes the first record, and \<open>add_samples\<close> runs with expansion disabled: the
  schema after the call is the schema right after the label field was ensured, and
  it contains the label field whatever the records' labels are, in particular when
  all of them are \<open>None\<close>.
\<close>

theorem label_field_precreated:
  assumes "has_image_path p = Inr True" and "isinstance_LabeledImageSampleParser (cls p)"
    and "label_cls p = Inr (Some lcls)"
  shows "add_labeled_images E validate ds samples has_len p label_fld tags True =
           (case ensure_label_field ds label_fld lcls of
              (Some e, ds') \<Rightarrow> (Inl e, ds', p)
            | (None, ds') \<Rightarrow>
                add_samples (parse_sample E validate label_fld tags) ds' p samples False
                  (if has_len then Some (length samples) else None) [])
         \<and> sample_doc (fst (snd (add_labeled_images E validate ds samples has_len p label_fld tags True)))
             = sample_doc (snd (ensure_label_field ds label_fld lcls))
         \<and> label_fld \<in> dom (cls_fields (sample_doc (fst (snd
               (add_labeled_images E validate ds samples has_len p label_fld tags True)))))"
proof -
  obtain r ds1 where e: "ensure_label_field ds label_fld lcls = (r, ds1)"
    by (cases "ensure_label_field ds label_fld lcls")
  have a: "add_labeled_images E validate ds samples has_len p label_fld tags True =
           (case ensure_label_field ds label_fld lcls of
              (Some e, ds') \<Rightarrow> (Inl e, ds', p)
            | (None, ds') \<Rightarrow>
                add_samples (parse_sample E validate label_fld tags) ds' p samples False
                  (if has_len then Some (length samples) else None) [])"
    using assms by (simp add: add_labeled_images_def Let_def)
  have b: "sample_doc (fst (snd (add_labeled_images E validate ds samples has_len p label_fld tags True)))
             = sample_doc (snd (ensure_label_field ds label_fld lcls))"
    unfolding a e by (cases r) (simp_all add: add_samples_keeps_schema)
  show ?thesis
    using a b ensure_label_field_exists [of label_fld ds lcls] by simp
qed


lemma parse_unlabeled_detection:
  assumes "cls q = ImageDetectionSampleParser" and "normalized q"
  shows "parse_sample E validate label_fld tags q (VTuple [VStr path, VNone])
           = (Inr (Sample (VStr path) VNone tags), with_sample q (VTuple [VStr path, VNone]))"
  using assms
  by (simp add: parse_sample_def Let_def with_sample_def clear_sample_def get_image_path_def
        current_sample_def ebind_def seq_index_def path_or_error_def is_str_def
        has_image_metadata_def get_label_def detection_get_label_def detection_parse_label_def)

theorem label_field_precreated_witness:
  "has_image_path (default_parser ImageDetectionSampleParser) = Inr True
   \<and> isinstance_LabeledImageSampleParser (cls (default_parser ImageDetectionSampleParser))
   \<and> label_cls (default_parser ImageDetectionSampleParser) = Inr (Some ''Detections'')
   \<and> fst (add_labeled_images example_env validate_kind empty_dataset
             [VTuple [VStr ''a.jpg'', VNone], VTuple [VStr ''b.jpg'', VNone]] True
             (default_parser ImageDetectionSampleParser) ''ground_truth'' VNone True)
       = Inr [0, 1]
   \<and> ''ground_truth'' \<in> dom (cls_fields (sample_doc (fst (snd
         (add_labeled_images example_env validate_kind empty_dataset
             [VTuple [VStr ''a.jpg'', VNone], VTuple [VStr ''b.jpg'', VNone]] True
             (default_parser ImageDetectionSampleParser) ''ground_truth'' VNone True)))))
   \<and> map (\<lambda>s. data s ''ground_truth'') (stored (fst (snd
         (add_labeled_images example_env validate_kind empty_dataset
             [VTuple [VStr ''a.jpg'', VNone], VTuple [VStr ''b.jpg'', VNone]] True
             (default_parser ImageDetectionSampleParser) ''ground_truth'' VNone True))))
       = [None, None]"
proof -
  let ?p = "default_parser ImageDetectionSampleParser"
  let ?a = "VTuple [VStr ''a.jpg'', VNone]"
  let ?b = "VTuple [VStr ''b.jpg'', VNone]"
  let ?parse = "parse_sample example_env validate_kind ''ground_truth'' VNone"
  have h1: "has_image_path ?p = Inr True"
    by (simp add: has_image_path_def default_parser_def)
  have h2: "isinstance_LabeledImageSampleParser (cls ?p)"
    by (simp add: default_parser_def)
  have h3: "label_cls ?p = Inr (Some ''Detections'')"
    by (simp add: label_cls_def default_parser_def)
  have q: "cls ?p = ImageDetectionSampleParser" "normalized ?p"
    "cls (with_sample ?p ?a) = ImageDetectionSampleParser" "normalized (with_sample ?p ?a)"
    by (simp_all add: default_parser_def with_sample_def clear_sample_def)
  have pa: "?parse ?p ?a = (Inr (Sample (VStr ''a.jpg'') VNone VNone), with_sample ?p ?a)"
    by (rule parse_unlabeled_detection [OF q(1) q(2)])
  have pb: "?parse (with_sample ?p ?a) ?b
              = (Inr (Sample (VStr ''b.jpg'') VNone VNone), with_sample (with_sample ?p ?a) ?b)"
    by (rule parse_unlabeled_detection [OF q(3) q(4)])
  define ds1 where "ds1 = snd (ensure_label_field empty_dataset ''ground_truth'' ''Detections'')"
  have e: "ensure_label_field empty_dataset ''ground_truth'' ''Detections'' = (None, ds1)"
    by (simp add: ds1_def ensure_label_field_def empty_dataset_def ODMSample_def add_field_def
          Let_def)
  have d1: "stored ds1 = []"
    "list_all (\<lambda>n. n \<in> dom (cls_fields (sample_doc ds1)))
       [''id'', ''filepath'', ''tags'', ''metadata'', ''ground_truth'']"
    by (simp_all add: ds1_def ensure_label_field_def empty_dataset_def ODMSample_def
          add_field_def Let_def)
  have r: "add_samples ?parse ds1 ?p [?a, ?b] False n []
             = (Inr [0, 1],
                ds1\<lparr>stored := [(Sample (VStr ''a.jpg'') VNone VNone)\<lparr>in_db := True\<rparr>,
                                (Sample (VStr ''b.jpg'') VNone VNone)\<lparr>in_db := True\<rparr>]\<rparr>,
                with_sample (with_sample ?p ?a) ?b)"
    for n
    using d1 by (simp add: pa pb reconcile_schema_def create_or_update_def Sample_def ODMSample_def)
  from label_field_precreated [OF h1 h2 h3, of example_env validate_kind empty_dataset
         "[?a, ?b]" True "''ground_truth''" VNone]
  have "add_labeled_images example_env validate_kind empty_dataset [?a, ?b] True ?p
          ''ground_truth'' VNone True
        = (Inr [0, 1],
                ds1\<lparr>stored := [(Sample (VStr ''a.jpg'') VNone VNone)\<lparr>in_db := True\<rparr>,
                                (Sample (VStr ''b.jpg'') VNone VNone)\<lparr>in_db := True\<rparr>]\<rparr>,
                with_sample (with_sample ?p ?a) ?b)"
    by (simp add: e r del: add_samples.simps)
  then show ?thesis
    using h1 h2 h3 d1 by (simp add: Sample_def ODMSample_def)
qed


lemma add_implied_field_success:
  assumes "add_implied_field st n v = (None, st1)"
  shows "n \<notin> dom (cls_fields st)
       \<and> (\<exists>fld. st1 = st\<lparr> cls_fields := (cls_fields st)(n \<mapsto> fld),
                           cls_fields_ordered := cls_fields_ordered st @ [n],
                           cls_attrs := (cls_attrs st)(n \<mapsto> FieldAttr fld) \<rparr>)"
  using add_implied_field_cases [of st n v]
proof (elim disjE exE)
  fix t e
  assume "add_implied_field st n v = add_field st n t e None"
  with assms have "add_field st n t e None = (None, st1)" by simp
  then show ?thesis
    by (auto simp add: add_field_def Let_def split: if_splits)
qed (use assms in auto)

lemma setattr_field_success:
  assumes "cls_attrs st n = Some (FieldAttr f)" and "n \<in> dom (cls_fields st)"
    and "\<not> startswith_underscore n"
    and "ODMSample_setattr validate st n v = (None, st')"
  shows "\<exists>k. st' = st\<lparr>data := (data st)(n \<mapsto> v), saves := k\<rparr>"
  using assms
  by (auto simp add: ODMSample_setattr_def hasattr_cls_def super_setattr_def
        split: if_splits intro: exI [of _ "saves st"])

lemma set_field_create_success:
  assumes inv: "\<forall>m f. cls_fields st m = Some f \<longrightarrow> cls_attrs st m = Some (FieldAttr f)"
    and ok: "set_field validate st n v True = (None, st')"
  shows "(\<forall>m f. cls_fields st' m = Some f \<longrightarrow> cls_attrs st' m = Some (FieldAttr f))
       \<and> data st' n = Some v \<and> (\<forall>m. m \<noteq> n \<longrightarrow> data st' m = data st m)"
proof -
  from ok have nu: "\<not> startswith_underscore n"
    by (auto simp add: set_field_def split: if_splits)
  show ?thesis
  proof (cases "n \<in> dom (cls_fields st)")
    case True
    then obtain f where f: "cls_fields st n = Some f" by auto
    with inv have a: "cls_attrs st n = Some (FieldAttr f)" by simp
    from ok True nu have "ODMSample_setattr validate st n v = (None, st')"
      by (simp add: set_field_def)
    from setattr_field_success [OF a True nu this] inv show ?thesis by auto
  next
    case False
    obtain r1 st1 where s1: "add_implied_field st n v = (r1, st1)"
      by (cases "add_implied_field st n v")
    from ok False nu s1 have r1: "r1 = None"
      by (cases r1) (auto simp add: set_field_def split: if_splits)
    from ok False nu s1 r1 have sa: "ODMSample_setattr validate st1 n v = (None, st')"
      by (auto simp add: set_field_def split: if_splits)
    from add_implied_field_success [OF s1 [unfolded r1]] obtain fld where
      st1: "st1 = st\<lparr> cls_fields := (cls_fields st)(n \<mapsto> fld),
                      cls_fields_ordered := cls_fields_ordered st @ [n],
                      cls_attrs := (cls_attrs st)(n \<mapsto> FieldAttr fld) \<rparr>"
      by auto
    have a: "cls_attrs st1 n = Some (FieldAttr fld)" and d: "n \<in> dom (cls_fields st1)"
      by (simp_all add: st1)
    from setattr_field_success [OF a d nu sa] obtain k where
      "st' = st1\<lparr>data := (data st1)(n \<mapsto> v), saves := k\<rparr>" by auto
    with st1 inv show ?thesis by auto
  qed
qed

lemma update_fields_success:
  assumes "\<forall>m f. cls_fields st m = Some f \<longrightarrow> cls_attrs st m = Some (FieldAttr f)"
    and "update_fields validate st d = (None, st')"
    and "distinct (map fst d)"
  shows "(\<forall>(k, v) \<in> set d. data st' k = Some v)
       \<and> (\<forall>m. m \<notin> fst ` set d \<longrightarrow> data st' m = data st m)"
  using assms
proof (induction d arbitrary: st)
  case Nil
  then show ?case by simp
next
  case (Cons kv d)
  obtain k v where kv: "kv = (k, v)" by (cases kv)
  obtain r1 st1 where s1: "set_field validate st k v True = (r1, st1)"
    by (cases "set_field validate st k v True")
  from Cons.prems(2) kv s1 have r1: "r1 = None"
    by (cases r1) (simp_all add: ODMSample_setitem_def)
  from Cons.prems(2) kv s1 r1 have u: "update_fields validate st1 d = (None, st')"
    by (simp add: ODMSample_setitem_def)
  note a = set_field_create_success [OF Cons.prems(1) s1 [unfolded r1]]
  from Cons.prems(3) kv have dd: "distinct (map fst d)" and kd: "k \<notin> fst ` set d" by auto
  from a have inv1: "\<forall>m f. cls_fields st1 m = Some f \<longrightarrow> cls_attrs st1 m = Some (FieldAttr f)"
    by blast
  note ih = Cons.IH [OF inv1 u dd]
  from ih kd a have "data st' k = Some v" by auto
  moreover from ih a have "\<forall>m. m \<notin> fst ` set (kv # d) \<longrightarrow> data st' m = data st m"
    by (auto simp add: kv)
  ultimately show ?case using ih by (auto simp add: kv)
qed

lemma Sample_descriptors:
  "\<forall>m f. cls_fields (Sample a b c) m = Some f \<longrightarrow> cls_attrs (Sample a b c) m = Some (FieldAttr f)"
  by (auto simp add: Sample_def ODMSample_def split: if_splits)

text \<open>
  C6. When the accessors succeed and \<open>parse_sample\<close> returns a sample: for a label
  that is a mapping, every entry is stored under its own field name and no other
  field value changes; for any other label that is not \<open>None\<close>, the label is stored
  under the configured label field and nothing else changes; for the label \<open>None\<close>
  the sample is the one the constructor built, with no label written.
\<close>

theorem parse_sample_label_fanout:
  assumes "get_image_path (with_sample p sample) = Inr image_path"
    and "ebind (has_image_metadata (with_sample p sample))
           (\<lambda>hm. if hm then get_image_metadata E (with_sample p sample) else Inr VNone)
         = Inr metadata"
    and "get_label E (with_sample p sample) = (Inr label, p2)"
    and "parse_sample E validate label_fld tags p sample = (Inr smp, p')"
  shows "(label = VNone \<longrightarrow> smp = Sample image_path metadata tags)
       \<and> (\<forall>d. label = VDict d \<and> distinct (map fst d) \<longrightarrow>
             (\<forall>(k, v) \<in> set d. data smp k = Some v)
             \<and> (\<forall>m. m \<notin> fst ` set d \<longrightarrow> data smp m = data (Sample image_path metadata tags) m))
       \<and> (label \<noteq> VNone \<and> \<not> isinstance_dict label \<longrightarrow>
             data smp label_fld = Some label
             \<and> (\<forall>m. m \<noteq> label_fld \<longrightarrow> data smp m = data (Sample image_path metadata tags) m))"
proof -
  let ?new = "Sample image_path metadata tags"
  have none: "smp = ?new" if "label = VNone"
    using that assms by (simp add: parse_sample_def Let_def)
  have dict: "(\<forall>(k, v) \<in> set d. data smp k = Some v)
              \<and> (\<forall>m. m \<notin> fst ` set d \<longrightarrow> data smp m = data ?new m)"
    if l: "label = VDict d \<and> distinct (map fst d)" for d
  proof -
    from l assms have "update_fields validate ?new d = (None, smp)"
      by (auto simp add: parse_sample_def Let_def split: prod.splits option.splits)
    from update_fields_success [OF Sample_descriptors this] l show ?thesis by simp
  qed
  have single: "data smp label_fld = Some label
                \<and> (\<forall>m. m \<noteq> label_fld \<longrightarrow> data smp m = data ?new m)"
    if l: "label \<noteq> VNone \<and> \<not> isinstance_dict label"
  proof -
    from l assms have "set_field validate ?new label_fld label True = (None, smp)"
      by (cases label)
         (auto simp add: parse_sample_def Let_def ODMSample_setitem_def
            split: prod.splits option.splits)
    from set_field_create_success [OF Sample_descriptors this] show ?thesis by simp
  qed
  from none dict single show ?thesis by blast
qed


text \<open>The definitions that evaluate \<open>parse_sample\<close> on a concrete record.\<close>

lemmas eval_defs = parse_sample_def Let_def with_sample_def clear_sample_def default_parser_def
        get_image_path_def current_sample_def ebind_def seq_index_def path_or_error_def is_str_def
        has_image_metadata_def get_image_metadata_def stored_metadata_def get_label_def
        fiftyone_get_label_def lookup_name_def classification_parse_label_def class_label_def
        imagelabels_parse_label_def
        Classification_def ImageLabels_def ODMSample_setitem_def set_field_def Sample_def ODMSample_def
        hasattr_self_def add_implied_field_def add_field_def ODMSample_setattr_def hasattr_cls_def
        super_setattr_def example_mapping_parser_def example_stored_sample_def

theorem parse_sample_label_fanout_witness:
  "map_sum id (\<lambda>smp. data smp ''ground_truth'')
     (fst (parse_sample example_env validate_kind ''ground_truth'' VNone
             (default_parser ImageClassificationSampleParser) (VTuple [VStr ''a.jpg'', VNone])))
     = Inr None
   \<and> map_sum id (\<lambda>smp. data smp ''ground_truth'')
       (fst (parse_sample example_env validate_kind ''ground_truth'' VNone
               (default_parser ImageClassificationSampleParser)
               (VTuple [VStr ''a.jpg'', VStr ''cat''])))
       = Inr (Some (Classification (VStr ''cat'')))
   \<and> map_sum id (\<lambda>smp. (data smp ''truth'', data smp ''guess'', data smp ''ground_truth''))
       (fst (parse_sample example_env validate_kind ''ground_truth'' VNone
               example_mapping_parser example_stored_sample))
       = Inr (Some (Classification (VStr ''cat'')), Some (Classification (VStr ''dog'')), None)"
proof -
  let ?E = example_env
  let ?c = "default_parser ImageClassificationSampleParser"
  let ?r0 = "VTuple [VStr ''a.jpg'', VNone]"
  let ?r1 = "VTuple [VStr ''a.jpg'', VStr ''cat'']"
  let ?d = "[(''truth'', Classification (VStr ''cat'')), (''guess'', Classification (VStr ''dog''))]"
  let ?new = "Sample (VStr ''a.jpg'') VNone VNone"
  have n: "data ?new ''ground_truth'' = None"
    by (simp add: Sample_def ODMSample_def)
  \<comment> \<open>an unlabeled record\<close>
  obtain s0 q0 where p0: "parse_sample ?E validate_kind ''ground_truth'' VNone ?c ?r0 = (Inr s0, q0)"
    by (simp add: eval_defs)
  have a0: "get_image_path (with_sample ?c ?r0) = Inr (VStr ''a.jpg'')"
    "ebind (has_image_metadata (with_sample ?c ?r0))
       (\<lambda>hm. if hm then get_image_metadata ?E (with_sample ?c ?r0) else Inr VNone) = Inr VNone"
    "get_label ?E (with_sample ?c ?r0) = (Inr VNone, with_sample ?c ?r0)"
    by (simp_all add: eval_defs)
  from parse_sample_label_fanout [OF a0 p0] have "s0 = ?new" by simp
  with p0 n have w0: "map_sum id (\<lambda>smp. data smp ''ground_truth'')
     (fst (parse_sample ?E validate_kind ''ground_truth'' VNone ?c ?r0)) = Inr None"
    by simp
  \<comment> \<open>a record with a single label\<close>
  obtain s1 q1 where p1: "parse_sample ?E validate_kind ''ground_truth'' VNone ?c ?r1 = (Inr s1, q1)"
    by (simp add: eval_defs)
  have a1: "get_image_path (with_sample ?c ?r1) = Inr (VStr ''a.jpg'')"
    "ebind (has_image_metadata (with_sample ?c ?r1))
       (\<lambda>hm. if hm then get_image_metadata ?E (with_sample ?c ?r1) else Inr VNone) = Inr VNone"
    "get_label ?E (with_sample ?c ?r1) = (Inr (Classification (VStr ''cat'')), with_sample ?c ?r1)"
    by (simp_all add: eval_defs)
  from parse_sample_label_fanout [OF a1 p1]
  have "data s1 ''ground_truth'' = Some (Classification (VStr ''cat''))"
    by (simp add: Classification_def)
  with p1 have w1: "map_sum id (\<lambda>smp. data smp ''ground_truth'')
     (fst (parse_sample ?E validate_kind ''ground_truth'' VNone ?c ?r1))
       = Inr (Some (Classification (VStr ''cat'')))"
    by simp
  \<comment> \<open>a record with a mapping of labels\<close>
  obtain s2 q2 where p2: "parse_sample ?E validate_kind ''ground_truth'' VNone
       example_mapping_parser example_stored_sample = (Inr s2, q2)"
    by (simp add: eval_defs)
  have a2: "get_image_path (with_sample example_mapping_parser example_stored_sample)
              = Inr (VStr ''a.jpg'')"
    "ebind (has_image_metadata (with_sample example_mapping_parser example_stored_sample))
       (\<lambda>hm. if hm then get_image_metadata ?E
                            (with_sample example_mapping_parser example_stored_sample)
             else Inr VNone) = Inr VNone"
    "get_label ?E (with_sample example_mapping_parser example_stored_sample)
       = (Inr (VDict ?d), with_sample example_mapping_parser example_stored_sample)"
    by (simp_all add: eval_defs)
  from parse_sample_label_fanout [OF a2 p2]
  have "data s2 ''truth'' = Some (Classification (VStr ''cat''))
        \<and> data s2 ''guess'' = Some (Classification (VStr ''dog''))
        \<and> data s2 ''ground_truth'' = None"
    using n by simp
  with p2 have w2: "map_sum id (\<lambda>smp. (data smp ''truth'', data smp ''guess'', data smp ''ground_truth''))
       (fst (parse_sample ?E validate_kind ''ground_truth'' VNone
               example_mapping_parser example_stored_sample))
       = Inr (Some (Classification (VStr ''cat'')), Some (Classification (VStr ''dog'')), None)"
    by simp
  from w0 w1 w2 show ?thesis by simp
qed

text \<open>
  C10. With \<open>expand=False\<close> the image-labels parser never returns \<open>None\<close>: for a
  record whose label payload is \<open>None\<close> it returns \<open>ImageLabels(labels=None)\<close>, and
  the pipeline writes that label to the label field, while the classification and
  the detection parser return \<open>None\<close> for such a record.
\<close>

theorem imagelabels_never_unlabeled:
  "(cls p = ImageLabelsSampleParser \<and> \<not> expand p \<longrightarrow>
       fst (get_label E p) \<noteq> Inr VNone
       \<and> fst (get_label E (with_sample p (VTuple [image_or_path, VNone])))
            = Inr (ImageLabels VNone)
       \<and> parse_sample E validate label_fld tags p (VTuple [VStr path, VNone]) =
           (case ODMSample_setitem validate (Sample (VStr path) VNone tags) label_fld
                   (ImageLabels VNone) of
              (Some e, smp) \<Rightarrow> (Inl e, with_sample p (VTuple [VStr path, VNone]))
            | (None, smp) \<Rightarrow> (Inr smp, with_sample p (VTuple [VStr path, VNone]))))
   \<and> fst (get_label E (with_sample (p\<lparr>cls := ImageClassificationSampleParser\<rparr>)
                          (VTuple [image_or_path, VNone]))) = Inr VNone
   \<and> fst (get_label E (with_sample (p\<lparr>cls := ImageDetectionSampleParser, normalized := True\<rparr>)
                          (VTuple [image_or_path, VNone]))) = Inr VNone"
proof (intro conjI impI)
  assume a: "cls p = ImageLabelsSampleParser \<and> \<not> expand p"
  then show "fst (get_label E p) \<noteq> Inr VNone"
    by (auto simp add: get_label_def imagelabels_parse_label_def ebind_def ImageLabels_def Let_def
          split: sum.splits pyval.splits)
  from a show "fst (get_label E (with_sample p (VTuple [image_or_path, VNone])))
            = Inr (ImageLabels VNone)"
    by (simp add: get_label_def imagelabels_parse_label_def ebind_def ImageLabels_def Let_def
          with_sample_def clear_sample_def current_sample_def seq_index_def)
  from a show "parse_sample E validate label_fld tags p (VTuple [VStr path, VNone]) =
           (case ODMSample_setitem validate (Sample (VStr path) VNone tags) label_fld
                   (ImageLabels VNone) of
              (Some e, smp) \<Rightarrow> (Inl e, with_sample p (VTuple [VStr path, VNone]))
            | (None, smp) \<Rightarrow> (Inr smp, with_sample p (VTuple [VStr path, VNone])))"
    by (simp add: parse_sample_def Let_def get_image_path_def has_image_metadata_def
          get_label_def imagelabels_parse_label_def ebind_def ImageLabels_def
          with_sample_def clear_sample_def current_sample_def seq_index_def path_or_error_def
          is_str_def split: prod.splits option.splits)
next
  show "fst (get_label E (with_sample (p\<lparr>cls := ImageClassificationSampleParser\<rparr>)
                          (VTuple [image_or_path, VNone]))) = Inr VNone"
    by (simp add: get_label_def classification_parse_label_def ebind_def
          with_sample_def clear_sample_def current_sample_def seq_index_def)
next
  show "fst (get_label E (with_sample (p\<lparr>cls := ImageDetectionSampleParser, normalized := True\<rparr>)
                          (VTuple [image_or_path, VNone]))) = Inr VNone"
    by (simp add: get_label_def detection_get_label_def detection_parse_label_def ebind_def
          with_sample_def clear_sample_def current_sample_def seq_index_def)
qed

theorem imagelabels_never_unlabeled_witness:
  "cls ((default_parser ImageLabelsSampleParser)\<lparr>expand := False\<rparr>) = ImageLabelsSampleParser
   \<and> \<not> expand ((default_parser ImageLabelsSampleParser)\<lparr>expand := False\<rparr>)
   \<and> fst (get_label example_env
            (with_sample ((default_parser ImageLabelsSampleParser)\<lparr>expand := False\<rparr>)
               (VTuple [VStr ''a.jpg'', VNone])))
       = Inr (ImageLabels VNone)
   \<and> map_sum id (\<lambda>smp. data smp ''ground_truth'')
       (fst (parse_sample example_env validate_kind ''ground_truth'' VNone
               ((default_parser ImageLabelsSampleParser)\<lparr>expand := False\<rparr>)
               (VTuple [VStr ''a.jpg'', VNone])))
       = Inr (Some (ImageLabels VNone))"
proof -
  let ?p = "(default_parser ImageLabelsSampleParser)\<lparr>expand := False\<rparr>"
  have h: "cls ?p = ImageLabelsSampleParser \<and> \<not> expand ?p"
    by (simp add: default_parser_def)
  have w: "ODMSample_setitem validate_kind (Sample (VStr ''a.jpg'') VNone VNone) ''ground_truth''
             (ImageLabels VNone)
           = (None, snd (ODMSample_setitem validate_kind (Sample (VStr ''a.jpg'') VNone VNone)
                           ''ground_truth'' (ImageLabels VNone)))
           \<and> data (snd (ODMSample_setitem validate_kind (Sample (VStr ''a.jpg'') VNone VNone)
                           ''ground_truth'' (ImageLabels VNone))) ''ground_truth''
              = Some (ImageLabels VNone)"
    by (simp add: ImageLabels_def ODMSample_setitem_def set_field_def Sample_def ODMSample_def
        hasattr_self_def add_implied_field_def add_field_def ODMSample_setattr_def hasattr_cls_def
        super_setattr_def Let_def)
  from imagelabels_never_unlabeled
         [of ?p example_env "VStr ''a.jpg''" validate_kind "''ground_truth''" VNone "''a.jpg''"]
       h w
  show ?thesis by (simp split: prod.splits option.splits)
qed


end
